theory Spec2Isabelle
  imports Main "HOL-Library.AList"
begin

section \<open>JavaScript values\<close>

text \<open>
  Pixel quantities are JavaScript values of type \<open>number | undefined\<close>. Finite numbers
  are modelled as integers; \<open>NaN\<close> (the result of arithmetic on \<open>undefined\<close>) and
  \<open>undefined\<close> (an optional field that is not set, \<open>d3.max\<close> of nothing) are
  constructors of their own. An optional object or string (\<open>indi?: TreeEntry\<close>, a getter
  that may return \<open>null\<close>) is an \<open>option\<close>, with \<open>None\<close> for \<open>undefined\<close>/\<open>null\<close>.
\<close>

datatype number = Num int | NaN | Undefined

text \<open>
  A property access or a call on \<open>undefined\<close>/\<open>null\<close> throws a \<open>TypeError\<close>; the DOM
  throws a \<open>NotFoundError\<close> when \<open>insertBefore\<close> is given a reference node that is not a
  child of the parent.
\<close>

datatype error = TypeError | NotFoundError

definition digit_char :: "nat \<Rightarrow> char" where
  "digit_char d = ''0123456789'' ! (d mod 10)"

fun nat_to_string :: "nat \<Rightarrow> string" where
  "nat_to_string n =
     (if n < 10 then [digit_char n] else nat_to_string (n div 10) @ [digit_char (n mod 10)])"

declare nat_to_string.simps [simp del]

text \<open>\<open>String(i)\<close> for an integer \<open>i\<close>.\<close>

definition int_to_string :: "int \<Rightarrow> string" where
  "int_to_string i = (if i < 0 then ''-'' @ nat_to_string (nat (- i)) else nat_to_string (nat i))"

text \<open>String conversion, as string concatenation and template literals perform it.\<close>

definition number_to_string :: "number \<Rightarrow> string" where
  "number_to_string x =
     (case x of Num i \<Rightarrow> int_to_string i | NaN \<Rightarrow> ''NaN'' | Undefined \<Rightarrow> ''undefined'')"

text \<open>Truthiness of a \<open>string | null\<close>: \<open>null\<close> and the empty string are falsy.\<close>

definition truthy_string :: "string option \<Rightarrow> bool" where
  "truthy_string s = (case s of None \<Rightarrow> False | Some t \<Rightarrow> t \<noteq> [])"

text \<open>\<open>s || ''\<close> for a \<open>string | null\<close>.\<close>

definition string_or_empty :: "string option \<Rightarrow> string" where
  "string_or_empty s = (case s of None \<Rightarrow> [] | Some t \<Rightarrow> t)"

text \<open>\<open>a || b\<close> for two strings.\<close>

definition string_or :: "string \<Rightarrow> string \<Rightarrow> string" where
  "string_or a b = (if a \<noteq> [] then a else b)"

text \<open>Truthiness of a number: \<open>undefined\<close>, \<open>NaN\<close> and \<open>0\<close> are falsy.\<close>

definition truthy_number :: "number \<Rightarrow> bool" where
  "truthy_number x = (case x of Num i \<Rightarrow> i \<noteq> 0 | NaN \<Rightarrow> False | Undefined \<Rightarrow> False)"

text \<open>\<open>a + b\<close> and \<open>-a\<close> on numbers: anything but finite numbers gives \<open>NaN\<close>.\<close>

fun js_plus :: "number \<Rightarrow> number \<Rightarrow> number" where
  "js_plus (Num a) (Num b) = Num (a + b)"
| "js_plus _ _ = NaN"

fun js_neg :: "number \<Rightarrow> number" where
  "js_neg (Num a) = Num (- a)"
| "js_neg _ = NaN"

text \<open>
  \<open>d3.max\<close> of an array: the greatest element, skipping \<open>NaN\<close> and \<open>undefined\<close>;
  \<open>undefined\<close> when no element is left.
\<close>

fun d3_max :: "number list \<Rightarrow> number" where
  "d3_max [] = Undefined"
| "d3_max (Num i # xs) = (case d3_max xs of Num m \<Rightarrow> Num (max i m) | _ \<Rightarrow> Num i)"
| "d3_max (_ # xs) = d3_max xs"

section \<open>Data model\<close>

text \<open>
  Modelled from the spec: the detail records of \<open>./data\<close> (\<open>IndiDetails\<close>,
  \<open>FamDetails\<close>, the date types) and the layout types of \<open>./api\<close> (\<open>TreeEntry\<close>,
  \<open>TreeNode\<close>, \<open>RendererOptions\<close>) are imported by the renderer and declared
  elsewhere. They are given here as the spec's data model describes them and as the
  renderer reads them: every getter the renderer guards with \<open>||\<close>, \<open>&&\<close> or \<open>!\<close> is
  optional. Only the fields the renderer reads are kept.
\<close>

record Date =
  year :: int

record DateRange =
  range_from :: "Date option"
  range_to :: "Date option"

record DateOrRange =
  date :: "Date option"
  dateRange :: "DateRange option"

record IndiDetails =
  getFirstName :: "string option"
  getLastName :: "string option"
  getSex :: "string option"
  getBirthDate :: "DateOrRange option"
  getDeathDate :: "DateOrRange option"
  getBirthPlace :: "string option"
  getDeathPlace :: "string option"
  getImageUrl :: "string option"

record FamDetails =
  getMarriageDate :: "DateOrRange option"
  getMarriagePlace :: "string option"

record DataProvider =
  getIndi :: "string \<Rightarrow> IndiDetails option"
  getFam :: "string \<Rightarrow> FamDetails option"

record TreeEntry =
  entry_id :: string
  width :: number
  height :: number

record TreeNode =
  node_id :: string
  indi :: "TreeEntry option"
  spouse :: "TreeEntry option"
  family :: "TreeEntry option"
  generation :: number

text \<open>The payload a click callback receives.\<close>

record ClickInfo =
  click_id :: string
  click_generation :: number

record RendererOptions =
  data :: DataProvider
  horizontal :: bool
  animate :: bool
  opt_locale :: "string option"
  indiHrefFunc :: "(string \<Rightarrow> string) option"
  famHrefFunc :: "(string \<Rightarrow> string) option"
  indiCallback :: "(ClickInfo \<Rightarrow> unit) option"
  famCallback :: "(ClickInfo \<Rightarrow> unit) option"

text \<open>
  The functions the renderer imports from sibling modules: \<open>getFamPositionHorizontal\<close>
  and \<open>getFamPositionVertical\<close> (\<open>./composite-renderer\<close>), \<open>getLength\<close>
  (\<open>./detailed-renderer\<close>, the measured width of a text in a style class) and
  \<open>formatDate\<close> (\<open>./date-format\<close>). Their bodies are not part of this module, so
  they are parameters of every definition that calls them.
\<close>

record Imports =
  getFamPositionHorizontal :: "TreeNode \<Rightarrow> number"
  getFamPositionVertical :: "TreeNode \<Rightarrow> number"
  getLength :: "string \<Rightarrow> string \<Rightarrow> number"
  formatDate :: "Date \<Rightarrow> string option \<Rightarrow> string"

section \<open>Constants\<close>

definition INDI_MIN_HEIGHT :: int where "INDI_MIN_HEIGHT = 43"
definition INDI_MIN_WIDTH :: int where "INDI_MIN_WIDTH = 64"
definition FAM_MIN_HEIGHT :: int where "FAM_MIN_HEIGHT = 10"
definition FAM_MIN_WIDTH :: int where "FAM_MIN_WIDTH = 15"
definition IMAGE_WIDTH :: int where "IMAGE_WIDTH = 70"
definition IMAGE_HEIGHT :: int where "IMAGE_HEIGHT = 90"

definition ANIMATION_DELAY_MS :: nat where "ANIMATION_DELAY_MS = 200"
definition ANIMATION_DURATION_MS :: nat where "ANIMATION_DURATION_MS = 500"

definition SEX_COLORS :: "string \<Rightarrow> string option" where
  "SEX_COLORS = map_of [(''F'', ''#fcb7bd''), (''M'', ''#b1e2e2'')]"

text \<open>The union marker U+26AD, written as its three UTF-8 bytes.\<close>

definition UNION_SYMBOL :: string where
  "UNION_SYMBOL = [char_of (226::nat), char_of (154::nat), char_of (173::nat)]"

record DetailsLine =
  symbol :: string
  centered :: bool
  line_text :: string

record OffsetIndi =
  o_indi :: TreeEntry
  o_generation :: number
  xOffset :: number
  yOffset :: number

section \<open>Details lines\<close>

text \<open>
  \<open>isValidBirthDate\<close> and \<open>isValidDeathDate\<close> of \<open>getIndiDetails\<close>: the date record
  exists and has an exact date or a range.
\<close>

definition isValidDate :: "DateOrRange option \<Rightarrow> bool" where
  "isValidDate d = (case d of None \<Rightarrow> False | Some x \<Rightarrow> date x \<noteq> None \<or> dateRange x \<noteq> None)"

text \<open>
  The left part of the lifespan for a valid birth date: the exact date's year, else
  \<open>birthDate.dateRange!.from!.year\<close>, which throws when the range has no \<open>from\<close>.
\<close>

definition birthYear :: "DateOrRange \<Rightarrow> error + string" where
  "birthYear b =
     (case date b of
        Some d \<Rightarrow> Inr (int_to_string (year d))
      | None \<Rightarrow>
         (case dateRange b of
            None \<Rightarrow> Inl TypeError
          | Some r \<Rightarrow>
             (case range_from r of
                None \<Rightarrow> Inl TypeError
              | Some f \<Rightarrow> Inr (int_to_string (year f)))))"

definition deathYear :: "DateOrRange \<Rightarrow> error + string" where
  "deathYear b =
     (case date b of
        Some d \<Rightarrow> Inr (int_to_string (year d))
      | None \<Rightarrow>
         (case dateRange b of
            None \<Rightarrow> Inl TypeError
          | Some r \<Rightarrow>
             (case range_to r of
                None \<Rightarrow> Inl TypeError
              | Some t \<Rightarrow> Inr (int_to_string (year t)))))"

text \<open>The block of \<open>getIndiDetails\<close> that builds the \<open>lifespan\<close> string.\<close>

definition lifespan :: "IndiDetails \<Rightarrow> error + string" where
  "lifespan i =
     (case (if isValidDate (getBirthDate i)
            then (case getBirthDate i of None \<Rightarrow> Inl TypeError | Some b \<Rightarrow> birthYear b)
            else Inr ''?'') of
        Inl e \<Rightarrow> Inl e
      | Inr left \<Rightarrow>
         (case (if isValidDate (getDeathDate i)
                then (case getDeathDate i of None \<Rightarrow> Inl TypeError | Some d \<Rightarrow> deathYear d)
                else Inr '''') of
            Inl e \<Rightarrow> Inl e
          | Inr right \<Rightarrow> Inr (left @ '' - '' @ right)))"

definition placeLines :: "IndiDetails \<Rightarrow> DetailsLine list" where
  "placeLines i =
     (if truthy_string (getBirthPlace i)
      then [\<lparr>symbol = '''', centered = True, line_text = string_or_empty (getBirthPlace i)\<rparr>]
      else if truthy_string (getDeathPlace i)
      then [\<lparr>symbol = '''', centered = True, line_text = string_or_empty (getDeathPlace i)\<rparr>]
      else [])"

definition getIndiDetails :: "IndiDetails \<Rightarrow> error + DetailsLine list" where
  "getIndiDetails i =
     (if isValidDate (getBirthDate i) \<or> isValidDate (getDeathDate i)
      then (case lifespan i of
              Inl e \<Rightarrow> Inl e
            | Inr l \<Rightarrow> Inr (\<lparr>symbol = '''', centered = True, line_text = l\<rparr> # placeLines i))
      else Inr (placeLines i))"

text \<open>
  \<open>getFamDetails\<close>. \<open>marriageDate\<close> is the \<open>&&\<close> chain: the formatted exact date when
  the marriage date record and its exact date exist, else a falsy value.
  \<open>detailsList[0].symbol = ...\<close> throws on an empty list.
\<close>

definition marriageDate :: "Imports \<Rightarrow> RendererOptions \<Rightarrow> FamDetails \<Rightarrow> string option" where
  "marriageDate imp opts fam =
     (case getMarriageDate fam of
        None \<Rightarrow> None
      | Some m \<Rightarrow> (case date m of None \<Rightarrow> None | Some d \<Rightarrow> Some (formatDate imp d (opt_locale opts))))"

definition getFamDetails :: "Imports \<Rightarrow> RendererOptions \<Rightarrow> FamDetails \<Rightarrow> error + DetailsLine list" where
  "getFamDetails imp opts fam =
     (let md = marriageDate imp opts fam;
          mp = getMarriagePlace fam;
          l1 = (if truthy_string md then [\<lparr>symbol = '''', centered = False, line_text = string_or_empty md\<rparr>] else []);
          l2 = l1 @ (if truthy_string mp then [\<lparr>symbol = '''', centered = False, line_text = string_or_empty mp\<rparr>] else [])
      in if truthy_string md \<or> truthy_string mp
         then (case l2 of
                 [] \<Rightarrow> Inl TypeError
               | l # ls \<Rightarrow> Inr (l\<lparr>symbol := UNION_SYMBOL\<rparr> # ls))
         else Inr l2)"

section \<open>Preferred sizes\<close>

definition maxDetailsWidth :: "Imports \<Rightarrow> DetailsLine list \<Rightarrow> number" where
  "maxDetailsWidth imp details = d3_max (map (\<lambda>x. getLength imp (line_text x) ''details'') details)"

definition getPreferredIndiSize :: "Imports \<Rightarrow> RendererOptions \<Rightarrow> string \<Rightarrow> error + (number \<times> number)" where
  "getPreferredIndiSize imp opts i =
     (case getIndi (data opts) i of
        None \<Rightarrow> Inl TypeError
      | Some ind \<Rightarrow>
         (case getIndiDetails ind of
            Inl e \<Rightarrow> Inl e
          | Inr details \<Rightarrow>
             (let h = d3_max [Num (INDI_MIN_HEIGHT + int (length details) * 14),
                              Num (if truthy_string (getImageUrl ind) then IMAGE_HEIGHT else 0)];
                  w = js_plus
                        (d3_max [js_plus (maxDetailsWidth imp details) (Num 22),
                                 js_plus (getLength imp (string_or_empty (getFirstName ind)) ''name'') (Num 8),
                                 js_plus (getLength imp (string_or_empty (getLastName ind)) ''name'') (Num 8),
                                 Num INDI_MIN_WIDTH])
                        (Num (if truthy_string (getImageUrl ind) then IMAGE_WIDTH else 0))
              in Inr (w, h))))"

definition getPreferredFamSize :: "Imports \<Rightarrow> RendererOptions \<Rightarrow> string \<Rightarrow> error + (number \<times> number)" where
  "getPreferredFamSize imp opts i =
     (case getFam (data opts) i of
        None \<Rightarrow> Inl TypeError
      | Some fam \<Rightarrow>
         (case getFamDetails imp opts fam of
            Inl e \<Rightarrow> Inl e
          | Inr details \<Rightarrow>
             (let h = d3_max [Num (10 + int (length details) * 14), Num FAM_MIN_HEIGHT];
                  w = d3_max [js_plus (maxDetailsWidth imp details) (Num 22), Num FAM_MIN_WIDTH]
              in Inr (w, h))))"

section \<open>Offsets of the boxes of a node\<close>

text \<open>
  The function \<open>render\<close> passes to \<open>.data(...)\<close>: the layout node expanded into the
  records of its individual and its spouse, each with its offset inside the node.
\<close>

definition famXOffset :: "Imports \<Rightarrow> RendererOptions \<Rightarrow> TreeNode \<Rightarrow> number" where
  "famXOffset imp opts node =
     (if \<not> horizontal opts \<and> family node \<noteq> None
      then d3_max [js_neg (getFamPositionVertical imp node), Num 0]
      else Num 0)"

definition famYOffset :: "Imports \<Rightarrow> RendererOptions \<Rightarrow> TreeNode \<Rightarrow> number" where
  "famYOffset imp opts node =
     (if horizontal opts \<and> family node \<noteq> None
      then d3_max [js_neg (getFamPositionHorizontal imp node), Num 0]
      else Num 0)"

definition offsetIndis :: "Imports \<Rightarrow> RendererOptions \<Rightarrow> TreeNode \<Rightarrow> OffsetIndi list" where
  "offsetIndis imp opts node =
     (case indi node of
        None \<Rightarrow> []
      | Some i \<Rightarrow>
          [\<lparr>o_indi = i, o_generation = generation node,
            xOffset = famXOffset imp opts node, yOffset = Num 0\<rparr>])
     @
     (case spouse node of
        None \<Rightarrow> []
      | Some s \<Rightarrow>
          [\<lparr>o_indi = s, o_generation = generation node,
            xOffset =
              (case indi node of
                 Some i \<Rightarrow>
                   if \<not> horizontal opts then js_plus (width i) (famXOffset imp opts node)
                   else Num 0
               | None \<Rightarrow> Num 0),
            yOffset =
              (case indi node of
                 Some i \<Rightarrow>
                   if horizontal opts then js_plus (height i) (famYOffset imp opts node)
                   else Num 0
               | None \<Rightarrow> Num 0)\<rparr>])"

section \<open>Family transform\<close>

definition translate :: "number \<Rightarrow> number \<Rightarrow> string" where
  "translate x y = ''translate('' @ number_to_string x @ '', '' @ number_to_string y @ '')''"

text \<open>
  \<open>(node.indi && node.indi.width) || node.spouse!.width\<close>, for the dimension \<open>dim\<close>:
  reading the spouse throws when the node has none.
\<close>

definition indiOrSpouse :: "(TreeEntry \<Rightarrow> number) \<Rightarrow> TreeNode \<Rightarrow> error + number" where
  "indiOrSpouse dim node =
     (let a = (case indi node of None \<Rightarrow> Undefined | Some i \<Rightarrow> dim i)
      in if truthy_number a then Inr a
         else (case spouse node of None \<Rightarrow> Inl TypeError | Some s \<Rightarrow> Inr (dim s)))"

definition getFamTransform :: "Imports \<Rightarrow> RendererOptions \<Rightarrow> TreeNode \<Rightarrow> error + string" where
  "getFamTransform imp opts node =
     (if horizontal opts
      then (case indiOrSpouse width node of
              Inl e \<Rightarrow> Inl e
            | Inr x \<Rightarrow> Inr (translate x (d3_max [getFamPositionHorizontal imp node, Num 0])))
      else (case indiOrSpouse height node of
              Inl e \<Rightarrow> Inl e
            | Inr y \<Rightarrow> Inr (translate (d3_max [getFamPositionVertical imp node, Num 0]) y)))"

section \<open>Background colour\<close>

text \<open>
  The value function of the background rectangle's \<open>style\<close> attribute in
  \<open>renderIndi\<close>. \<open>+\<close> binds tighter than \<open>||\<close>: the expression is
  \<open>('fill: ' + SEX_COLORS.get(...)) || ''\<close>, and \<open>Map.get\<close> of a missing key is
  \<open>undefined\<close>.
\<close>

definition sexColor :: "string \<Rightarrow> string" where
  "sexColor sex = (case SEX_COLORS sex of None \<Rightarrow> ''undefined'' | Some c \<Rightarrow> c)"

definition backgroundStyle :: "RendererOptions \<Rightarrow> OffsetIndi \<Rightarrow> error + string" where
  "backgroundStyle opts d =
     (case getIndi (data opts) (entry_id (o_indi d)) of
        None \<Rightarrow> Inl TypeError
      | Some ind \<Rightarrow> Inr (string_or (''fill: '' @ sexColor (string_or_empty (getSex ind))) []))"

section \<open>The document\<close>

text \<open>
  The renderer draws through D3 selections into an SVG document that persists between
  passes. The document is a store: an element is its index in the list of all
  elements created so far, so an element keeps its identity while its attributes
  change, and a new element gets the next index. An element carries what the
  renderer sets or reads: tag, parent and children, attributes, text content, the
  datum D3 binds to it (\<open>__data__\<close>) and its event listeners. Transitions that were
  started and have not run yet are kept beside the elements.
\<close>

datatype datum = NodeDatum TreeNode | IndiDatum OffsetIndi

datatype listener = IndiClick | FamClick

record element =
  tag :: string
  parent :: "nat option"
  children :: "nat list"
  attrs :: "(string \<times> string) list"
  textContent :: string
  bound :: "datum option"
  listeners :: "(string \<times> listener) list"

text \<open>
  A value function as D3 calls it: it receives the element's datum, may throw, and
  returns the value or \<open>null\<close>.
\<close>

type_synonym valuefn = "datum option \<Rightarrow> error + string option"

text \<open>
  An attribute change scheduled by a transition: the value function is kept and runs
  when the transition starts, \<open>s_delay\<close> milliseconds after it was scheduled; the
  attribute then moves to the value over \<open>s_duration\<close> milliseconds.
\<close>

record scheduled =
  s_target :: nat
  s_name :: string
  s_value :: valuefn
  s_delay :: nat
  s_duration :: nat

record document =
  elements :: "element list"
  pending :: "scheduled list"

definition modify :: "nat \<Rightarrow> (element \<Rightarrow> element) \<Rightarrow> document \<Rightarrow> document" where
  "modify r f d = d\<lparr>elements := (elements d)[r := f (elements d ! r)]\<rparr>"

definition attribute :: "element \<Rightarrow> string \<Rightarrow> string option" where
  "attribute e n = map_of (attrs e) n"

text \<open>\<open>setAttribute\<close> and \<open>removeAttribute\<close>.\<close>

definition setAttribute :: "nat \<Rightarrow> string \<Rightarrow> string \<Rightarrow> document \<Rightarrow> document" where
  "setAttribute r n v = modify r (\<lambda>e. e\<lparr>attrs := AList.update n v (attrs e)\<rparr>)"

definition removeAttribute :: "nat \<Rightarrow> string \<Rightarrow> document \<Rightarrow> document" where
  "removeAttribute r n = modify r (\<lambda>e. e\<lparr>attrs := AList.delete n (attrs e)\<rparr>)"

text \<open>
  \<open>parent.insertBefore(child, next)\<close> for a new element: the child is created with
  the given tag and datum and placed before \<open>next\<close> among the children of the parent,
  or last when \<open>next\<close> is \<open>null\<close>. The DOM throws when \<open>next\<close> is not a child of the
  parent.
\<close>

fun insert_before :: "nat \<Rightarrow> nat \<Rightarrow> nat list \<Rightarrow> nat list" where
  "insert_before c n [] = [c]"
| "insert_before c n (x # xs) = (if x = n then c # x # xs else x # insert_before c n xs)"

definition insertNew :: "string \<Rightarrow> datum option \<Rightarrow> nat \<Rightarrow> nat option \<Rightarrow> document \<Rightarrow> error + (nat \<times> document)" where
  "insertNew t dt p next d =
     (let c = length (elements d);
          e = \<lparr>tag = t, parent = Some p, children = [], attrs = [], textContent = [],
               bound = dt, listeners = []\<rparr>;
          d' = d\<lparr>elements := elements d @ [e]\<rparr>
      in case next of
           None \<Rightarrow> Inr (c, modify p (\<lambda>x. x\<lparr>children := children x @ [c]\<rparr>) d')
         | Some n \<Rightarrow>
             if n \<in> set (children (elements d ! p))
             then Inr (c, modify p (\<lambda>x. x\<lparr>children := insert_before c n (children x)\<rparr>) d')
             else Inl NotFoundError)"

subsection \<open>Selectors\<close>

text \<open>
  The selectors the renderer uses: a tag (\<open>g\<close>), a tag with a class (\<open>g.indi\<close>), and a
  tag below an ancestor tag (\<open>clipPath rect\<close>). The class attribute is a list of names
  separated by spaces.
\<close>

datatype selector = Tag string | TagClass string string | Below string string


fun split_spaces :: "string \<Rightarrow> string \<Rightarrow> string list" where
  "split_spaces acc [] = (if acc = [] then [] else [acc])"
| "split_spaces acc (c # cs) =
     (if c = CHR '' '' then (if acc = [] then [] else [acc]) @ split_spaces [] cs
      else split_spaces (acc @ [c]) cs)"

definition classes :: "element \<Rightarrow> string list" where
  "classes e = (case attribute e ''class'' of None \<Rightarrow> [] | Some v \<Rightarrow> split_spaces [] v)"

text \<open>
  Ancestors and descendants follow the parent and children references. The store is
  finite, so the number of elements bounds the depth of the walk.
\<close>

fun ancestors :: "nat \<Rightarrow> element list \<Rightarrow> nat \<Rightarrow> nat list" where
  "ancestors 0 els r = []"
| "ancestors (Suc k) els r =
     (if r < length els
      then (case parent (els ! r) of None \<Rightarrow> [] | Some p \<Rightarrow> p # ancestors k els p)
      else [])"

fun descendants :: "nat \<Rightarrow> element list \<Rightarrow> nat \<Rightarrow> nat list" where
  "descendants 0 els r = []"
| "descendants (Suc k) els r =
     (if r < length els
      then concat (map (\<lambda>c. c # descendants k els c) (children (els ! r)))
      else [])"

definition matches :: "document \<Rightarrow> selector \<Rightarrow> nat \<Rightarrow> bool" where
  "matches d s r =
     (r < length (elements d) \<and>
      (case s of
         Tag t \<Rightarrow> tag (elements d ! r) = t
       | TagClass t c \<Rightarrow> tag (elements d ! r) = t \<and> c \<in> set (classes (elements d ! r))
       | Below a t \<Rightarrow>
           tag (elements d ! r) = t \<and>
           list_ex (\<lambda>p. p < length (elements d) \<and> tag (elements d ! p) = a)
             (ancestors (length (elements d)) (elements d) r)))"

text \<open>\<open>querySelectorAll\<close> and \<open>querySelector\<close>: the matching descendants in document order.\<close>

definition querySelectorAll :: "document \<Rightarrow> selector \<Rightarrow> nat \<Rightarrow> nat list" where
  "querySelectorAll d s r =
     filter (matches d s) (descendants (length (elements d)) (elements d) r)"

definition querySelector :: "document \<Rightarrow> selector \<Rightarrow> nat \<Rightarrow> nat option" where
  "querySelector d s r = (case querySelectorAll d s r of [] \<Rightarrow> None | x # xs \<Rightarrow> Some x)"

section \<open>D3 selections\<close>

text \<open>
  A selection is a list of groups, a group a list of slots. A slot is empty, holds an
  element, or holds a placeholder of the enter selection of a data join: the parent
  that will receive the element, the datum, and the element of the update selection
  the new element goes before (\<open>_next\<close>).
\<close>

datatype slot = Empty | Elem nat | EnterNode nat datum "nat option"

type_synonym selection = "slot list list"

definition andThen :: "error + 'a \<Rightarrow> ('a \<Rightarrow> error + 'b) \<Rightarrow> error + 'b" where
  "andThen m f = (case m of Inl e \<Rightarrow> Inl e | Inr x \<Rightarrow> f x)"

text \<open>
  Most operations of a selection visit the slots in order, group by group; each visit
  may change the document and replaces the slot in the selection that is returned.
\<close>

fun forSlots :: "(slot \<Rightarrow> document \<Rightarrow> error + (slot \<times> document)) \<Rightarrow> slot list \<Rightarrow> document
    \<Rightarrow> error + (slot list \<times> document)" where
  "forSlots f [] d = Inr ([], d)"
| "forSlots f (s # ss) d =
     (case f s d of
        Inl e \<Rightarrow> Inl e
      | Inr (s', d') \<Rightarrow>
          (case forSlots f ss d' of
             Inl e \<Rightarrow> Inl e
           | Inr (ss', d'') \<Rightarrow> Inr (s' # ss', d'')))"

fun forGroups :: "(slot \<Rightarrow> document \<Rightarrow> error + (slot \<times> document)) \<Rightarrow> selection \<Rightarrow> document
    \<Rightarrow> error + (selection \<times> document)" where
  "forGroups f [] d = Inr ([], d)"
| "forGroups f (g # gs) d =
     (case forSlots f g d of
        Inl e \<Rightarrow> Inl e
      | Inr (g', d') \<Rightarrow>
          (case forGroups f gs d' of
             Inl e \<Rightarrow> Inl e
           | Inr (gs', d'') \<Rightarrow> Inr (g' # gs', d'')))"

text \<open>The datum a callback receives for a slot.\<close>

definition slot_datum :: "document \<Rightarrow> slot \<Rightarrow> datum option" where
  "slot_datum d s =
     (case s of Empty \<Rightarrow> None | Elem r \<Rightarrow> bound (elements d ! r) | EnterNode p dt n \<Rightarrow> Some dt)"

text \<open>
  \<open>selection.append(tag)\<close>: a new child for every slot, carrying the slot's datum. An
  element gets it as last child; a placeholder materialises in its parent, before its
  \<open>_next\<close>.
\<close>

definition append_slot :: "string \<Rightarrow> slot \<Rightarrow> document \<Rightarrow> error + (slot \<times> document)" where
  "append_slot t s d =
     (case s of
        Empty \<Rightarrow> Inr (Empty, d)
      | Elem r \<Rightarrow>
          andThen (insertNew t (bound (elements d ! r)) r None d) (\<lambda>(c, d'). Inr (Elem c, d'))
      | EnterNode p dt n \<Rightarrow>
          andThen (insertNew t (Some dt) p n d) (\<lambda>(c, d'). Inr (Elem c, d')))"

definition d3_append :: "string \<Rightarrow> selection \<Rightarrow> document \<Rightarrow> error + (selection \<times> document)" where
  "d3_append t = forGroups (append_slot t)"

text \<open>
  \<open>selection.attr(name, value)\<close>: the value function runs on the datum; \<open>null\<close> removes
  the attribute. A placeholder has no \<open>setAttribute\<close>.
\<close>

definition attr_slot :: "string \<Rightarrow> valuefn \<Rightarrow> slot \<Rightarrow> document \<Rightarrow> error + (slot \<times> document)" where
  "attr_slot n f s d =
     (case s of
        Empty \<Rightarrow> Inr (s, d)
      | Elem r \<Rightarrow>
          andThen (f (bound (elements d ! r)))
            (\<lambda>v. case v of
                    None \<Rightarrow> Inr (s, removeAttribute r n d)
                  | Some x \<Rightarrow> Inr (s, setAttribute r n x d))
      | EnterNode p dt nx \<Rightarrow> Inl TypeError)"

definition d3_attr :: "string \<Rightarrow> valuefn \<Rightarrow> selection \<Rightarrow> document \<Rightarrow> error + document" where
  "d3_attr n f sel d = andThen (forGroups (attr_slot n f) sel d) (\<lambda>(s, d'). Inr d')"

text \<open>\<open>selection.text(value)\<close>: \<open>null\<close> gives the empty text.\<close>

definition text_slot :: "valuefn \<Rightarrow> slot \<Rightarrow> document \<Rightarrow> error + (slot \<times> document)" where
  "text_slot f s d =
     (case s of
        Empty \<Rightarrow> Inr (s, d)
      | Elem r \<Rightarrow>
          andThen (f (bound (elements d ! r)))
            (\<lambda>v. Inr (s, modify r (\<lambda>e. e\<lparr>textContent := string_or_empty v\<rparr>) d))
      | EnterNode p dt nx \<Rightarrow> Inr (s, d))"

definition d3_text :: "valuefn \<Rightarrow> selection \<Rightarrow> document \<Rightarrow> error + document" where
  "d3_text f sel d = andThen (forGroups (text_slot f) sel d) (\<lambda>(s, d'). Inr d')"

text \<open>\<open>selection.on(type, listener)\<close>.\<close>

definition on_slot :: "string \<Rightarrow> listener \<Rightarrow> slot \<Rightarrow> document \<Rightarrow> error + (slot \<times> document)" where
  "on_slot ty l s d =
     (case s of
        Empty \<Rightarrow> Inr (s, d)
      | Elem r \<Rightarrow> Inr (s, modify r (\<lambda>e. e\<lparr>listeners := AList.update ty l (listeners e)\<rparr>) d)
      | EnterNode p dt nx \<Rightarrow> Inl TypeError)"

definition d3_on :: "string \<Rightarrow> listener \<Rightarrow> selection \<Rightarrow> document \<Rightarrow> error + document" where
  "d3_on ty l sel d = andThen (forGroups (on_slot ty l) sel d) (\<lambda>(s, d'). Inr d')"

text \<open>
  \<open>selection.select(selector)\<close>: the first matching descendant of every element, which
  inherits the element's datum when it has one; an empty slot when there is none. A
  placeholder searches from its parent.
\<close>

definition select_slot :: "selector \<Rightarrow> slot \<Rightarrow> document \<Rightarrow> error + (slot \<times> document)" where
  "select_slot q s d =
     (case s of
        Empty \<Rightarrow> Inr (Empty, d)
      | Elem r \<Rightarrow>
          (case querySelector d q r of
             None \<Rightarrow> Inr (Empty, d)
           | Some c \<Rightarrow>
               (case bound (elements d ! r) of
                  None \<Rightarrow> Inr (Elem c, d)
                | Some dt \<Rightarrow> Inr (Elem c, modify c (\<lambda>e. e\<lparr>bound := Some dt\<rparr>) d)))
      | EnterNode p dt nx \<Rightarrow>
          (case querySelector d q p of
             None \<Rightarrow> Inr (Empty, d)
           | Some c \<Rightarrow> Inr (Elem c, modify c (\<lambda>e. e\<lparr>bound := Some dt\<rparr>) d)))"

definition d3_select :: "selector \<Rightarrow> selection \<Rightarrow> document \<Rightarrow> error + (selection \<times> document)" where
  "d3_select q = forGroups (select_slot q)"

text \<open>
  \<open>selection.select(function)\<close> for a function that returns \<open>this\<close> or \<open>null\<close>: the
  slot is kept when the test on its datum holds.
\<close>

definition select_this_slot :: "(datum option \<Rightarrow> error + bool) \<Rightarrow> slot \<Rightarrow> document \<Rightarrow> error + (slot \<times> document)" where
  "select_this_slot p s d =
     (case s of
        Empty \<Rightarrow> Inr (Empty, d)
      | _ \<Rightarrow> andThen (p (slot_datum d s)) (\<lambda>b. Inr (if b then s else Empty, d)))"

definition d3_select_this :: "(datum option \<Rightarrow> error + bool) \<Rightarrow> selection \<Rightarrow> document \<Rightarrow> error + (selection \<times> document)" where
  "d3_select_this p = forGroups (select_this_slot p)"

text \<open>
  \<open>selection.filter(function)\<close>: the slots whose datum passes the test, each group
  closed up.
\<close>

fun filter_group :: "(datum option \<Rightarrow> error + bool) \<Rightarrow> document \<Rightarrow> slot list \<Rightarrow> error + slot list" where
  "filter_group p d [] = Inr []"
| "filter_group p d (Empty # ss) = filter_group p d ss"
| "filter_group p d (s # ss) =
     andThen (p (slot_datum d s))
       (\<lambda>b. andThen (filter_group p d ss) (\<lambda>r. Inr (if b then s # r else r)))"

fun d3_filter :: "(datum option \<Rightarrow> error + bool) \<Rightarrow> selection \<Rightarrow> document \<Rightarrow> error + selection" where
  "d3_filter p [] d = Inr []"
| "d3_filter p (g # gs) d =
     andThen (filter_group p d g) (\<lambda>g'. andThen (d3_filter p gs d) (\<lambda>gs'. Inr (g' # gs')))"

text \<open>\<open>selection.each(function)\<close>, for a function that collects a value per slot.\<close>

fun each_group :: "(datum option \<Rightarrow> error + 'a) \<Rightarrow> document \<Rightarrow> slot list \<Rightarrow> error + 'a list" where
  "each_group f d [] = Inr []"
| "each_group f d (Empty # ss) = each_group f d ss"
| "each_group f d (s # ss) =
     andThen (f (slot_datum d s)) (\<lambda>x. andThen (each_group f d ss) (\<lambda>r. Inr (x # r)))"

fun d3_each :: "(datum option \<Rightarrow> error + 'a) \<Rightarrow> selection \<Rightarrow> document \<Rightarrow> error + 'a list" where
  "d3_each f [] d = Inr []"
| "d3_each f (g # gs) d =
     andThen (each_group f d g) (\<lambda>xs. andThen (d3_each f gs d) (\<lambda>ys. Inr (xs @ ys)))"

text \<open>
  \<open>selection.merge(other)\<close>: slot by slot, group by group, the slot of this selection
  or, where it is empty, the slot of the other one.
\<close>

fun merge_group :: "slot list \<Rightarrow> slot list \<Rightarrow> slot list" where
  "merge_group [] ys = []"
| "merge_group (x # xs) [] = x # xs"
| "merge_group (x # xs) (y # ys) = (case x of Empty \<Rightarrow> y | _ \<Rightarrow> x) # merge_group xs ys"

fun d3_merge :: "selection \<Rightarrow> selection \<Rightarrow> selection" where
  "d3_merge [] hs = []"
| "d3_merge (g # gs) [] = g # gs"
| "d3_merge (g # gs) (h # hs) = merge_group g h # d3_merge gs hs"

subsection \<open>The data join\<close>

text \<open>
  \<open>selection.selectAll(selector).data(value, key)\<close>. Every non-empty slot of the
  selection is the parent of a group: its matching descendants. \<open>value\<close> maps the
  parent's datum to the new data of the group. Elements and data are matched by key:
  the first element with a key is the element of that key, a datum whose key has an
  element not yet taken goes to that element (which is rebound to the datum, update
  selection), any other datum gets a placeholder (enter selection). A placeholder's
  \<open>_next\<close> is the first element after it in the update group.
\<close>

type_synonym keyfn = "datum option \<Rightarrow> error + string"

fun nodeByKeyValue :: "keyfn \<Rightarrow> document \<Rightarrow> nat list \<Rightarrow> error + (string \<times> nat) list" where
  "nodeByKeyValue key d [] = Inr []"
| "nodeByKeyValue key d (n # ns) =
     andThen (key (bound (elements d ! n)))
       (\<lambda>k. andThen (nodeByKeyValue key d ns) (\<lambda>m. Inr ((k, n) # m)))"

fun bindKey :: "keyfn \<Rightarrow> nat \<Rightarrow> (string \<times> nat) list \<Rightarrow> datum list \<Rightarrow> document
    \<Rightarrow> error + (slot list \<times> slot list \<times> document)" where
  "bindKey key p m [] d = Inr ([], [], d)"
| "bindKey key p m (x # xs) d =
     andThen (key (Some x))
       (\<lambda>k. case map_of m k of
               Some n \<Rightarrow>
                 andThen (bindKey key p (AList.delete k m) xs (modify n (\<lambda>e. e\<lparr>bound := Some x\<rparr>) d))
                   (\<lambda>(us, es, d'). Inr (Elem n # us, Empty # es, d'))
             | None \<Rightarrow>
                 andThen (bindKey key p m xs d)
                   (\<lambda>(us, es, d'). Inr (Empty # us, EnterNode p x None # es, d')))"

fun first_elem :: "slot list \<Rightarrow> nat option" where
  "first_elem [] = None"
| "first_elem (Elem r # ss) = Some r"
| "first_elem (_ # ss) = first_elem ss"

fun link_next :: "slot list \<Rightarrow> slot list \<Rightarrow> slot list" where
  "link_next us [] = []"
| "link_next [] (e # es) = e # es"
| "link_next (u # us) (e # es) =
     (case e of EnterNode p x n \<Rightarrow> EnterNode p x (first_elem us) | _ \<Rightarrow> e) # link_next us es"

definition slot_parent :: "slot \<Rightarrow> nat" where
  "slot_parent s = (case s of Elem r \<Rightarrow> r | EnterNode p dt n \<Rightarrow> p | Empty \<Rightarrow> 0)"

definition join_parent :: "selector \<Rightarrow> (datum option \<Rightarrow> error + datum list) \<Rightarrow> keyfn \<Rightarrow> slot \<Rightarrow> document
    \<Rightarrow> error + (slot list \<times> slot list \<times> document)" where
  "join_parent q val key s d =
     andThen (val (slot_datum d s))
       (\<lambda>xs. andThen (nodeByKeyValue key d (querySelectorAll d q (slot_parent s)))
          (\<lambda>m. andThen (bindKey key (slot_parent s) m xs d)
             (\<lambda>(us, es, d'). Inr (us, link_next us es, d'))))"

text \<open>The result is the update selection with the enter selection, and the document.\<close>

fun join_slots :: "selector \<Rightarrow> (datum option \<Rightarrow> error + datum list) \<Rightarrow> keyfn \<Rightarrow> slot list \<Rightarrow> document
    \<Rightarrow> error + (selection \<times> selection \<times> document)" where
  "join_slots q val key [] d = Inr ([], [], d)"
| "join_slots q val key (Empty # ss) d = join_slots q val key ss d"
| "join_slots q val key (s # ss) d =
     andThen (join_parent q val key s d)
       (\<lambda>(u, e, d'). andThen (join_slots q val key ss d')
          (\<lambda>(us, es, d''). Inr (u # us, e # es, d'')))"

definition d3_data :: "selector \<Rightarrow> (datum option \<Rightarrow> error + datum list) \<Rightarrow> keyfn \<Rightarrow> selection \<Rightarrow> document
    \<Rightarrow> error + ((selection \<times> selection) \<times> document)" where
  "d3_data q val key sel d =
     andThen (join_slots q val key (concat sel) d) (\<lambda>(u, e, d'). Inr ((u, e), d'))"

subsection \<open>Transitions\<close>

text \<open>
  What \<open>attr\<close> is called on after the \<open>transition\<close> helper: the selection itself, or a
  transition over its elements with a delay and a duration. \<open>attr\<close> on a transition
  does not touch the element: it schedules the change.
\<close>

datatype target = Immediately selection | Transition selection nat nat

definition schedule_slot :: "string \<Rightarrow> valuefn \<Rightarrow> nat \<Rightarrow> nat \<Rightarrow> slot \<Rightarrow> document \<Rightarrow> error + (slot \<times> document)" where
  "schedule_slot n f dl du s d =
     (case s of
        Empty \<Rightarrow> Inr (s, d)
      | Elem r \<Rightarrow>
          Inr (s, d\<lparr>pending := pending d @
                 [\<lparr>s_target = r, s_name = n, s_value = f, s_delay = dl, s_duration = du\<rparr>]\<rparr>)
      | EnterNode p dt nx \<Rightarrow> Inl TypeError)"

definition target_attr :: "string \<Rightarrow> valuefn \<Rightarrow> target \<Rightarrow> document \<Rightarrow> error + document" where
  "target_attr n f t d =
     (case t of
        Immediately sel \<Rightarrow> d3_attr n f sel d
      | Transition sel dl du \<Rightarrow>
          andThen (forGroups (schedule_slot n f dl du) sel d) (\<lambda>(s, d'). Inr d'))"

section \<open>The renderer\<close>

definition transition :: "RendererOptions \<Rightarrow> selection \<Rightarrow> target" where
  "transition opts sel =
     (if animate opts then Transition sel ANIMATION_DELAY_MS ANIMATION_DURATION_MS
      else Immediately sel)"

subsection \<open>Value functions\<close>

text \<open>
  The callbacks read fields of the datum. A callback of the node level reads
  \<open>node.data\<close>, one of the person level reads \<open>data.indi\<close>; on no datum, or on a datum
  of the other level, the read of a field of \<open>undefined\<close> throws.
\<close>

definition as_node :: "datum option \<Rightarrow> error + TreeNode" where
  "as_node dt = (case dt of Some (NodeDatum n) \<Rightarrow> Inr n | _ \<Rightarrow> Inl TypeError)"

definition as_indi :: "datum option \<Rightarrow> error + OffsetIndi" where
  "as_indi dt = (case dt of Some (IndiDatum x) \<Rightarrow> Inr x | _ \<Rightarrow> Inl TypeError)"

definition always :: "string \<Rightarrow> valuefn" where
  "always v = (\<lambda>dt. Inr (Some v))"

text \<open>A number as attribute value: \<open>undefined\<close> is \<open>null\<close> to D3, anything else its string.\<close>

definition number_value :: "number \<Rightarrow> string option" where
  "number_value x = (case x of Undefined \<Rightarrow> None | _ \<Rightarrow> Some (number_to_string x))"

fun js_minus :: "number \<Rightarrow> number \<Rightarrow> number" where
  "js_minus (Num a) (Num b) = Num (a - b)"
| "js_minus _ _ = NaN"

text \<open>The string of \<open>x / 2\<close>: a half of an odd integer ends in \<open>.5\<close>.\<close>

definition half_to_string :: "number \<Rightarrow> string" where
  "half_to_string x =
     (case x of
        Num i \<Rightarrow>
          if i mod 2 = 0 then int_to_string (i div 2)
          else (if i < 0 then ''-'' else []) @ nat_to_string (nat \<bar>i\<bar> div 2) @ ''.5''
      | _ \<Rightarrow> ''NaN'')"

text \<open>\<open>getIndi(data)!\<close> of \<open>renderIndi\<close>, and \<open>getDetailsWidth\<close>.\<close>

definition resolveIndi :: "RendererOptions \<Rightarrow> OffsetIndi \<Rightarrow> error + IndiDetails" where
  "resolveIndi opts x =
     (case getIndi (data opts) (entry_id (o_indi x)) of None \<Rightarrow> Inl TypeError | Some i \<Rightarrow> Inr i)"

definition getDetailsWidth :: "RendererOptions \<Rightarrow> OffsetIndi \<Rightarrow> error + number" where
  "getDetailsWidth opts x =
     andThen (resolveIndi opts x)
       (\<lambda>i. Inr (js_minus (width (o_indi x))
                   (Num (if truthy_string (getImageUrl i) then IMAGE_WIDTH else 0))))"

definition indiWidth :: valuefn where
  "indiWidth dt = andThen (as_indi dt) (\<lambda>x. Inr (number_value (width (o_indi x))))"

definition indiHeight :: valuefn where
  "indiHeight dt = andThen (as_indi dt) (\<lambda>x. Inr (number_value (height (o_indi x))))"

definition indiTransform :: valuefn where
  "indiTransform dt = andThen (as_indi dt) (\<lambda>x. Inr (Some (translate (xOffset x) (yOffset x))))"

definition famTransform :: "Imports \<Rightarrow> RendererOptions \<Rightarrow> valuefn" where
  "famTransform imp opts dt =
     andThen (as_node dt) (\<lambda>n. andThen (getFamTransform imp opts n) (\<lambda>t. Inr (Some t)))"

definition styleValue :: "RendererOptions \<Rightarrow> valuefn" where
  "styleValue opts dt = andThen (as_indi dt) (\<lambda>x. andThen (backgroundStyle opts x) (\<lambda>s. Inr (Some s)))"

definition hasFamily :: "datum option \<Rightarrow> error + bool" where
  "hasFamily dt = andThen (as_node dt) (\<lambda>n. Inr (family n \<noteq> None))"

text \<open>
  What a click listener passes to the callback of the options: the id and the
  generation read from the datum of the clicked element.
\<close>

definition clickInfo :: "listener \<Rightarrow> datum option \<Rightarrow> error + ClickInfo" where
  "clickInfo l dt =
     (case l of
        IndiClick \<Rightarrow>
          andThen (as_indi dt)
            (\<lambda>x. Inr \<lparr>click_id = entry_id (o_indi x), click_generation = o_generation x\<rparr>)
      | FamClick \<Rightarrow>
          andThen (as_node dt)
            (\<lambda>n. case family n of
                   None \<Rightarrow> Inl TypeError
                 | Some f \<Rightarrow> Inr \<lparr>click_id = entry_id f, click_generation = generation n\<rparr>))"

text \<open>The key of the person-level join, \<open>data.indi.id\<close>, and its data function.\<close>

definition indiKey :: keyfn where
  "indiKey dt = andThen (as_indi dt) (\<lambda>x. Inr (entry_id (o_indi x)))"

definition indiData :: "Imports \<Rightarrow> RendererOptions \<Rightarrow> datum option \<Rightarrow> error + datum list" where
  "indiData imp opts dt = andThen (as_node dt) (\<lambda>n. Inr (map IndiDatum (offsetIndis imp opts n)))"

subsection \<open>renderIndi\<close>

text \<open>
  The optional hyperlink: entering groups get an \<open>a\<close> child that becomes the parent
  of everything drawn, and the update selection descends to the existing \<open>a\<close>.
\<close>

definition indiHref :: "RendererOptions \<Rightarrow> selection \<Rightarrow> selection \<Rightarrow> document
    \<Rightarrow> error + ((selection \<times> selection) \<times> document)" where
  "indiHref opts enter update d =
     (case indiHrefFunc opts of
        None \<Rightarrow> Inr ((enter, update), d)
      | Some href \<Rightarrow>
          andThen (d3_append ''a'' enter d) (\<lambda>(enter', d).
          andThen (d3_attr ''href''
                     (\<lambda>dt. andThen (as_indi dt) (\<lambda>x. Inr (Some (href (entry_id (o_indi x))))))
                     enter' d) (\<lambda>d.
          andThen (d3_select (Tag ''a'') update d) (\<lambda>(update', d).
          Inr ((enter', update'), d)))))"

definition indiClick :: "RendererOptions \<Rightarrow> selection \<Rightarrow> document \<Rightarrow> error + document" where
  "indiClick opts enter d =
     (case indiCallback opts of None \<Rightarrow> Inr d | Some cb \<Rightarrow> d3_on ''click'' IndiClick enter d)"

text \<open>\<open>// Background.\<close>\<close>

definition renderBackground :: "RendererOptions \<Rightarrow> selection \<Rightarrow> selection \<Rightarrow> document \<Rightarrow> error + document" where
  "renderBackground opts enter update d =
     andThen (d3_append ''rect'' enter d) (\<lambda>(rect, d).
     andThen (d3_attr ''rx'' (always ''5'') rect d) (\<lambda>d.
     andThen (d3_attr ''stroke-width'' (always ''0'') rect d) (\<lambda>d.
     andThen (d3_attr ''class'' (always ''background'') rect d) (\<lambda>d.
     andThen (d3_attr ''style'' (styleValue opts) rect d) (\<lambda>d.
     andThen (d3_select (TagClass ''rect'' ''background'') update d) (\<lambda>(existing, d).
     andThen (target_attr ''width'' indiWidth (transition opts (d3_merge rect existing)) d) (\<lambda>d.
     target_attr ''height'' indiHeight (transition opts (d3_merge rect existing)) d)))))))"

text \<open>\<open>// Clip path.\<close>\<close>

definition clipId :: valuefn where
  "clipId dt = andThen (as_indi dt) (\<lambda>x. Inr (Some (''clip-'' @ entry_id (o_indi x))))"

definition renderClipPath :: "selection \<Rightarrow> selection \<Rightarrow> document \<Rightarrow> error + document" where
  "renderClipPath enter update d =
     andThen (d3_append ''clipPath'' enter d) (\<lambda>(clip, d).
     andThen (d3_attr ''id'' clipId clip d) (\<lambda>d.
     andThen (d3_append ''rect'' clip d) (\<lambda>(rect, d).
     andThen (d3_attr ''rx'' (always ''5'') rect d) (\<lambda>d.
     andThen (d3_select (Below ''clipPath'' ''rect'') update d) (\<lambda>(existing, d).
     andThen (d3_attr ''width'' indiWidth (d3_merge rect existing) d) (\<lambda>d.
     d3_attr ''height'' indiHeight (d3_merge rect existing) d))))))"

text \<open>\<open>// Name.\<close>\<close>

definition centeredAt :: "RendererOptions \<Rightarrow> string \<Rightarrow> valuefn" where
  "centeredAt opts y dt =
     andThen (as_indi dt) (\<lambda>x. andThen (getDetailsWidth opts x)
       (\<lambda>w. Inr (Some (''translate('' @ half_to_string w @ '', '' @ y @ '')''))))"

definition renderNameLine :: "RendererOptions \<Rightarrow> string \<Rightarrow> (IndiDetails \<Rightarrow> string option) \<Rightarrow> selection \<Rightarrow> document
    \<Rightarrow> error + document" where
  "renderNameLine opts y name enter d =
     andThen (d3_append ''text'' enter d) (\<lambda>(t, d).
     andThen (d3_attr ''text-anchor'' (always ''middle'') t d) (\<lambda>d.
     andThen (d3_attr ''class'' (always ''name'') t d) (\<lambda>d.
     andThen (d3_attr ''transform'' (centeredAt opts y) t d) (\<lambda>d.
     d3_text (\<lambda>dt. andThen (as_indi dt) (\<lambda>x. andThen (resolveIndi opts x) (\<lambda>i. Inr (name i)))) t d))))"

definition renderName :: "RendererOptions \<Rightarrow> selection \<Rightarrow> document \<Rightarrow> error + document" where
  "renderName opts enter d =
     andThen (renderNameLine opts ''17'' getFirstName enter d) (\<lambda>d.
     renderNameLine opts ''33'' getLastName enter d)"

text \<open>
  \<open>// Extract details.\<close> The \<open>details\<close> map is filled in the order of the entering
  slots, a later entry for an id replacing an earlier one; \<open>details.get(id)![i]\<close>
  throws when the id has no entry or the entry no line \<open>i\<close>.
\<close>

definition extractIndiDetails :: "RendererOptions \<Rightarrow> selection \<Rightarrow> document
    \<Rightarrow> error + (string \<times> DetailsLine list) list" where
  "extractIndiDetails opts enter d =
     d3_each (\<lambda>dt. andThen (as_indi dt) (\<lambda>x. andThen (resolveIndi opts x)
                (\<lambda>i. andThen (getIndiDetails i) (\<lambda>l. Inr (entry_id (o_indi x), l)))))
       enter d"

definition detailsOf :: "(string \<times> DetailsLine list) list \<Rightarrow> string \<Rightarrow> error + DetailsLine list" where
  "detailsOf details i = (case map_of (rev details) i of None \<Rightarrow> Inl TypeError | Some l \<Rightarrow> Inr l)"

definition lineOf :: "(string \<times> DetailsLine list) list \<Rightarrow> string \<Rightarrow> nat \<Rightarrow> error + DetailsLine" where
  "lineOf details k i =
     andThen (detailsOf details k) (\<lambda>l. if i < length l then Inr (l ! i) else Inl TypeError)"

definition maxDetails :: "(string \<times> DetailsLine list) list \<Rightarrow> nat" where
  "maxDetails details =
     (case d3_max (map (\<lambda>(k, l). Num (int (length l))) details) of Num m \<Rightarrow> nat m | _ \<Rightarrow> 0)"

text \<open>\<open>49 + i * 14\<close> and \<open>16 + i * 14\<close> as strings.\<close>

definition lineY :: "int \<Rightarrow> nat \<Rightarrow> string" where
  "lineY base i = int_to_string (base + int i * 14)"

text \<open>\<open>// Render details.\<close> One round of the loop, for line \<open>i\<close>.\<close>

definition indiLine :: "RendererOptions \<Rightarrow> (string \<times> DetailsLine list) list \<Rightarrow> selection \<Rightarrow> nat \<Rightarrow> document
    \<Rightarrow> error + document" where
  "indiLine opts details enter i d =
     andThen (d3_filter (\<lambda>dt. andThen (as_indi dt) (\<lambda>x. andThen (detailsOf details (entry_id (o_indi x)))
                (\<lambda>l. Inr (i < length l)))) enter d) (\<lambda>lineGroup.
     andThen (d3_filter (\<lambda>dt. andThen (as_indi dt) (\<lambda>x. andThen (lineOf details (entry_id (o_indi x)) i)
                (\<lambda>l. Inr (centered l)))) lineGroup d) (\<lambda>centeredGroup.
     andThen (d3_append ''text'' centeredGroup d) (\<lambda>(t, d).
     andThen (d3_attr ''text-anchor'' (always ''middle'') t d) (\<lambda>d.
     andThen (d3_attr ''class'' (always ''details'') t d) (\<lambda>d.
     andThen (d3_attr ''transform'' (centeredAt opts (lineY 49 i)) t d) (\<lambda>d.
     andThen (d3_text (\<lambda>dt. andThen (as_indi dt) (\<lambda>x. andThen (lineOf details (entry_id (o_indi x)) i)
                (\<lambda>l. Inr (Some (line_text l))))) t d) (\<lambda>d.
     andThen (d3_filter (\<lambda>dt. andThen (as_indi dt) (\<lambda>x. andThen (lineOf details (entry_id (o_indi x)) i)
                (\<lambda>l. Inr (\<not> centered l)))) lineGroup d) (\<lambda>nonCentered.
     andThen (d3_append ''text'' nonCentered d) (\<lambda>(t, d).
     andThen (d3_attr ''text-anchor'' (always ''middle'') t d) (\<lambda>d.
     andThen (d3_attr ''class'' (always ''details symbol'') t d) (\<lambda>d.
     andThen (d3_attr ''transform'' (always (''translate(9, '' @ lineY 49 i @ '')'')) t d) (\<lambda>d.
     andThen (d3_text (\<lambda>dt. andThen (as_indi dt) (\<lambda>x. andThen (lineOf details (entry_id (o_indi x)) i)
                (\<lambda>l. Inr (Some (symbol l))))) t d) (\<lambda>d.
     andThen (d3_append ''text'' nonCentered d) (\<lambda>(t, d).
     andThen (d3_attr ''class'' (always ''details'') t d) (\<lambda>d.
     andThen (d3_attr ''transform'' (always (''translate(15, '' @ lineY 49 i @ '')'')) t d) (\<lambda>d.
     d3_text (\<lambda>dt. andThen (as_indi dt) (\<lambda>x. andThen (lineOf details (entry_id (o_indi x)) i)
                (\<lambda>l. Inr (Some (line_text l))))) t d))))))))))))))))"

text \<open>The loop \<open>for (let i = 0; i < maxDetails; ++i)\<close>: \<open>k\<close> rounds starting at line \<open>i\<close>.\<close>

fun forLines :: "(nat \<Rightarrow> document \<Rightarrow> error + document) \<Rightarrow> nat \<Rightarrow> nat \<Rightarrow> document \<Rightarrow> error + document" where
  "forLines body i 0 d = Inr d"
| "forLines body i (Suc k) d = andThen (body i d) (forLines body (Suc i) k)"

definition renderIndiDetails :: "RendererOptions \<Rightarrow> selection \<Rightarrow> document \<Rightarrow> error + document" where
  "renderIndiDetails opts enter d =
     andThen (extractIndiDetails opts enter d) (\<lambda>details.
     forLines (indiLine opts details enter) 0 (maxDetails details) d)"

text \<open>\<open>// Image.\<close>\<close>

definition imageUrl :: "RendererOptions \<Rightarrow> valuefn" where
  "imageUrl opts dt = andThen (as_indi dt) (\<lambda>x. andThen (resolveIndi opts x) (\<lambda>i. Inr (getImageUrl i)))"

definition renderImage :: "RendererOptions \<Rightarrow> selection \<Rightarrow> document \<Rightarrow> error + document" where
  "renderImage opts enter d =
     andThen (d3_filter (\<lambda>dt. andThen (as_indi dt) (\<lambda>x. andThen (resolveIndi opts x)
                (\<lambda>i. Inr (truthy_string (getImageUrl i))))) enter d) (\<lambda>withImage.
     andThen (d3_append ''image'' withImage d) (\<lambda>(img, d).
     andThen (d3_attr ''width'' (always (int_to_string IMAGE_WIDTH)) img d) (\<lambda>d.
     andThen (d3_attr ''height'' indiHeight img d) (\<lambda>d.
     andThen (d3_attr ''preserveAspectRatio'' (always ''xMidYMin'') img d) (\<lambda>d.
     andThen (d3_attr ''transform''
                (\<lambda>dt. andThen (as_indi dt) (\<lambda>x. Inr (Some (''translate('' @
                   number_to_string (js_minus (width (o_indi x)) (Num IMAGE_WIDTH)) @ '', 0)''))))
                img d) (\<lambda>d.
     andThen (d3_attr ''clip-path''
                (\<lambda>dt. andThen (as_indi dt) (\<lambda>x. Inr (Some (''url(#clip-'' @ entry_id (o_indi x) @ '')''))))
                img d) (\<lambda>d.
     d3_attr ''href'' (imageUrl opts) img d)))))))"

text \<open>\<open>// Border on top.\<close>\<close>

definition renderBorder :: "RendererOptions \<Rightarrow> selection \<Rightarrow> selection \<Rightarrow> document \<Rightarrow> error + document" where
  "renderBorder opts enter update d =
     andThen (d3_append ''rect'' enter d) (\<lambda>(rect, d).
     andThen (d3_attr ''rx'' (always ''5'') rect d) (\<lambda>d.
     andThen (d3_attr ''fill-opacity'' (always ''0'') rect d) (\<lambda>d.
     andThen (d3_attr ''class'' (always ''border'') rect d) (\<lambda>d.
     andThen (d3_select (TagClass ''rect'' ''border'') update d) (\<lambda>(existing, d).
     andThen (target_attr ''width'' indiWidth (transition opts (d3_merge rect existing)) d) (\<lambda>d.
     target_attr ''height'' indiHeight (transition opts (d3_merge rect existing)) d))))))"

definition renderIndi :: "RendererOptions \<Rightarrow> selection \<Rightarrow> selection \<Rightarrow> document \<Rightarrow> error + document" where
  "renderIndi opts enter0 update0 d =
     andThen (indiHref opts enter0 update0 d) (\<lambda>((enter, update), d).
     andThen (indiClick opts enter d) (\<lambda>d.
     andThen (renderBackground opts enter update d) (\<lambda>d.
     andThen (renderClipPath enter update d) (\<lambda>d.
     andThen (renderName opts enter d) (\<lambda>d.
     andThen (renderIndiDetails opts enter d) (\<lambda>d.
     andThen (renderImage opts enter d) (\<lambda>d.
     renderBorder opts enter update d)))))))"

subsection \<open>renderFamily\<close>

definition famId :: "datum option \<Rightarrow> error + string" where
  "famId dt =
     andThen (as_node dt) (\<lambda>n. case family n of None \<Rightarrow> Inl TypeError | Some f \<Rightarrow> Inr (entry_id f))"

definition famHref :: "RendererOptions \<Rightarrow> selection \<Rightarrow> document \<Rightarrow> error + (selection \<times> document)" where
  "famHref opts enter d =
     (case famHrefFunc opts of
        None \<Rightarrow> Inr (enter, d)
      | Some href \<Rightarrow>
          andThen (d3_append ''a'' enter d) (\<lambda>(enter', d).
          andThen (d3_attr ''href'' (\<lambda>dt. andThen (famId dt) (\<lambda>k. Inr (Some (href k)))) enter' d) (\<lambda>d.
          Inr (enter', d))))"

definition famClick :: "RendererOptions \<Rightarrow> selection \<Rightarrow> document \<Rightarrow> error + document" where
  "famClick opts enter d =
     (case famCallback opts of None \<Rightarrow> Inr d | Some cb \<Rightarrow> d3_on ''click'' FamClick enter d)"

definition famWidth :: valuefn where
  "famWidth dt =
     andThen (as_node dt)
       (\<lambda>n. case family n of None \<Rightarrow> Inl TypeError | Some f \<Rightarrow> Inr (number_value (width f)))"

definition famHeight :: valuefn where
  "famHeight dt =
     andThen (as_node dt)
       (\<lambda>n. case family n of None \<Rightarrow> Inl TypeError | Some f \<Rightarrow> Inr (number_value (height f)))"

text \<open>\<open>// Box.\<close>\<close>

definition renderBox :: "selection \<Rightarrow> document \<Rightarrow> error + document" where
  "renderBox enter d =
     andThen (d3_append ''rect'' enter d) (\<lambda>(rect, d).
     andThen (d3_attr ''rx'' (always ''5'') rect d) (\<lambda>d.
     andThen (d3_attr ''ry'' (always ''5'') rect d) (\<lambda>d.
     andThen (d3_attr ''width'' famWidth rect d) (\<lambda>d.
     d3_attr ''height'' famHeight rect d))))"

definition extractFamDetails :: "Imports \<Rightarrow> RendererOptions \<Rightarrow> selection \<Rightarrow> document
    \<Rightarrow> error + (string \<times> DetailsLine list) list" where
  "extractFamDetails imp opts enter d =
     d3_each (\<lambda>dt. andThen (famId dt) (\<lambda>k.
                case getFam (data opts) k of
                  None \<Rightarrow> Inl TypeError
                | Some fam \<Rightarrow> andThen (getFamDetails imp opts fam) (\<lambda>l. Inr (k, l))))
       enter d"

definition famLine :: "(string \<times> DetailsLine list) list \<Rightarrow> selection \<Rightarrow> nat \<Rightarrow> document \<Rightarrow> error + document" where
  "famLine details enter i d =
     andThen (d3_filter (\<lambda>dt. andThen (famId dt) (\<lambda>k. andThen (detailsOf details k)
                (\<lambda>l. Inr (i < length l)))) enter d) (\<lambda>lineGroup.
     andThen (d3_append ''text'' lineGroup d) (\<lambda>(t, d).
     andThen (d3_attr ''text-anchor'' (always ''middle'') t d) (\<lambda>d.
     andThen (d3_attr ''class'' (always ''details'') t d) (\<lambda>d.
     andThen (d3_attr ''transform'' (always (''translate(9, '' @ lineY 16 i @ '')'')) t d) (\<lambda>d.
     andThen (d3_text (\<lambda>dt. andThen (famId dt) (\<lambda>k. andThen (lineOf details k i)
                (\<lambda>l. Inr (Some (symbol l))))) t d) (\<lambda>d.
     andThen (d3_append ''text'' lineGroup d) (\<lambda>(t, d).
     andThen (d3_attr ''text-anchor'' (always ''start'') t d) (\<lambda>d.
     andThen (d3_attr ''class'' (always ''details'') t d) (\<lambda>d.
     andThen (d3_attr ''transform'' (always (''translate(15, '' @ lineY 16 i @ '')'')) t d) (\<lambda>d.
     d3_text (\<lambda>dt. andThen (famId dt) (\<lambda>k. andThen (lineOf details k i)
                (\<lambda>l. Inr (Some (line_text l))))) t d))))))))))"

text \<open>\<open>renderFamily\<close> takes the update selection and does not use it.\<close>

definition renderFamily :: "Imports \<Rightarrow> RendererOptions \<Rightarrow> selection \<Rightarrow> selection \<Rightarrow> document \<Rightarrow> error + document" where
  "renderFamily imp opts enter0 update d =
     andThen (famHref opts enter0 d) (\<lambda>(enter, d).
     andThen (famClick opts enter d) (\<lambda>d.
     andThen (renderBox enter d) (\<lambda>d.
     andThen (extractFamDetails imp opts enter d) (\<lambda>details.
     forLines (famLine details enter) 0 (maxDetails details) d))))"

subsection \<open>render\<close>

definition render :: "Imports \<Rightarrow> RendererOptions \<Rightarrow> selection \<Rightarrow> selection \<Rightarrow> document \<Rightarrow> error + document" where
  "render imp opts enter0 update0 d =
     andThen (d3_append ''g'' enter0 d) (\<lambda>(enter, d).
     andThen (d3_attr ''class'' (always ''detailed'') enter d) (\<lambda>d.
     andThen (d3_select (Tag ''g'') update0 d) (\<lambda>(update, d).
     andThen (d3_data (TagClass ''g'' ''indi'') (indiData imp opts) indiKey (d3_merge enter update) d)
       (\<lambda>((indiUpdate, placeholders), d).
     andThen (d3_append ''g'' placeholders d) (\<lambda>(indiEnter, d).
     andThen (d3_attr ''class'' (always ''indi'') indiEnter d) (\<lambda>d.
     andThen (target_attr ''transform'' indiTransform (transition opts (d3_merge indiEnter indiUpdate)) d) (\<lambda>d.
     andThen (renderIndi opts indiEnter indiUpdate d) (\<lambda>d.
     andThen (d3_select_this hasFamily enter d) (\<lambda>(withFamily, d).
     andThen (d3_append ''g'' withFamily d) (\<lambda>(familyEnter, d).
     andThen (d3_attr ''class'' (always ''family'') familyEnter d) (\<lambda>d.
     andThen (d3_select_this hasFamily update d) (\<lambda>(updateWithFamily, d).
     andThen (d3_select (TagClass ''g'' ''family'') updateWithFamily d) (\<lambda>(familyUpdate, d).
     andThen (target_attr ''transform'' (famTransform imp opts)
                (transition opts (d3_merge familyEnter familyUpdate)) d) (\<lambda>d.
     renderFamily imp opts familyEnter familyUpdate d))))))))))))))"


section \<open>Example inputs\<close>

text \<open>
  Measurements for the examples: every character is 6 pixels wide, a date is formatted
  as its year, and the raw family position is \<open>-5\<close> in both orientations (the family
  box would start five pixels before the individual's origin).
\<close>

definition imports_ex :: Imports where
  "imports_ex =
     \<lparr>getFamPositionHorizontal = (\<lambda>n. Num (- 5)),
      getFamPositionVertical = (\<lambda>n. Num (- 5)),
      getLength = (\<lambda>s c. Num (6 * int (length s))),
      formatDate = (\<lambda>d l. int_to_string (year d))\<rparr>"

definition indi_born_1900 :: IndiDetails where
  "indi_born_1900 =
     \<lparr>getFirstName = Some ''Ann'', getLastName = Some ''Lee'', getSex = Some ''F'',
      getBirthDate = Some \<lparr>date = Some \<lparr>year = 1900\<rparr>, dateRange = None\<rparr>,
      getDeathDate = None, getBirthPlace = None, getDeathPlace = None, getImageUrl = None\<rparr>"

definition indi_died_1950 :: IndiDetails where
  "indi_died_1950 =
     \<lparr>getFirstName = Some ''Bob'', getLastName = Some ''Lee'', getSex = None,
      getBirthDate = None,
      getDeathDate = Some \<lparr>date = Some \<lparr>year = 1950\<rparr>, dateRange = None\<rparr>,
      getBirthPlace = None, getDeathPlace = None, getImageUrl = None\<rparr>"

text \<open>
  An individual whose birth date is a range with an end only (born before 1900).
\<close>

definition indi_born_before_1900 :: IndiDetails where
  "indi_born_before_1900 =
     \<lparr>getFirstName = Some ''Cy'', getLastName = Some ''Lee'', getSex = Some ''M'',
      getBirthDate =
        Some \<lparr>date = None, dateRange = Some \<lparr>range_from = None, range_to = Some \<lparr>year = 1900\<rparr>\<rparr>\<rparr>,
      getDeathDate = None, getBirthPlace = None, getDeathPlace = None, getImageUrl = None\<rparr>"

text \<open>
  A family whose marriage date is a range only, one whose marriage place is the empty
  string, one with an exact date and a place, and one with nothing.
\<close>

definition fam_empty_place :: FamDetails where
  "fam_empty_place = \<lparr>getMarriageDate = None, getMarriagePlace = Some []\<rparr>"


definition fam_range_only :: FamDetails where
  "fam_range_only =
     \<lparr>getMarriageDate =
        Some \<lparr>date = None,
              dateRange = Some \<lparr>range_from = Some \<lparr>year = 1920\<rparr>, range_to = Some \<lparr>year = 1925\<rparr>\<rparr>\<rparr>,
      getMarriagePlace = None\<rparr>"

definition fam_married_1925 :: FamDetails where
  "fam_married_1925 =
     \<lparr>getMarriageDate = Some \<lparr>date = Some \<lparr>year = 1925\<rparr>, dateRange = None\<rparr>,
      getMarriagePlace = Some ''Paris''\<rparr>"

definition fam_plain :: FamDetails where
  "fam_plain = \<lparr>getMarriageDate = None, getMarriagePlace = None\<rparr>"

definition data_ex :: DataProvider where
  "data_ex =
     \<lparr>getIndi = map_of [(''I1'', indi_born_1900), (''I2'', indi_died_1950)],
      getFam = map_of [(''F1'', fam_married_1925), (''F2'', fam_plain), (''F3'', fam_range_only)]\<rparr>"

definition options_ex :: "bool \<Rightarrow> bool \<Rightarrow> RendererOptions" where
  "options_ex h a =
     \<lparr>data = data_ex, horizontal = h, animate = a, opt_locale = None,
      indiHrefFunc = None, famHrefFunc = None, indiCallback = None, famCallback = None\<rparr>"

definition entry_ex :: "string \<Rightarrow> int \<Rightarrow> int \<Rightarrow> TreeEntry" where
  "entry_ex i w h = \<lparr>entry_id = i, width = Num w, height = Num h\<rparr>"

text \<open>A couple with a family box, and a node that has a spouse and a family but no individual.\<close>

definition node_couple :: TreeNode where
  "node_couple =
     \<lparr>node_id = ''I1'', indi = Some (entry_ex ''I1'' 100 57), spouse = Some (entry_ex ''I2'' 90 57),
      family = Some (entry_ex ''F1'' 60 38), generation = Num 0\<rparr>"

definition node_spouse_only :: TreeNode where
  "node_spouse_only =
     \<lparr>node_id = ''I2'', indi = None, spouse = Some (entry_ex ''I2'' 90 57),
      family = Some (entry_ex ''F2'' 15 10), generation = Num 1\<rparr>"

section \<open>Auxiliary facts\<close>

lemma int_to_string_1900: "int_to_string 1900 = ''1900''"
  by (simp add: int_to_string_def nat_to_string.simps digit_char_def)

lemma int_to_string_1950: "int_to_string 1950 = ''1950''"
  by (simp add: int_to_string_def nat_to_string.simps digit_char_def)

lemma int_to_string_1925: "int_to_string 1925 = ''1925''"
  by (simp add: int_to_string_def nat_to_string.simps digit_char_def)

section \<open>The offsets of individual and spouse\<close>

text \<open>
  In vertical orientation the individual is shifted along x by the clamped negated
  family position, and the spouse by the individual's width on top of it.
\<close>

lemma offsetIndis_vertical:
  assumes "\<not> horizontal opts" and "indi node = Some i" and "spouse node = Some s"
    and "family node \<noteq> None" and "getFamPositionVertical imp node = Num f" and "width i = Num w"
  shows "map (\<lambda>d. (xOffset d, yOffset d)) (offsetIndis imp opts node)
           = [(Num (max 0 (- f)), Num 0), (Num (w + max 0 (- f)), Num 0)]"
  using assms by (simp add: offsetIndis_def famXOffset_def max.commute)

text \<open>
  In horizontal orientation the spouse is shifted along y by the individual's height
  plus the clamped negated family position, and the individual is not shifted at all.
\<close>

lemma offsetIndis_horizontal:
  assumes "horizontal opts" and "indi node = Some i" and "spouse node = Some s"
    and "family node \<noteq> None" and "getFamPositionHorizontal imp node = Num f" and "height i = Num h"
  shows "map (\<lambda>d. (xOffset d, yOffset d)) (offsetIndis imp opts node)
           = [(Num 0, Num 0), (Num 0, Num (h + max 0 (- f)))]"
  using assms by (simp add: offsetIndis_def famXOffset_def famYOffset_def max.commute)

text \<open>
  C1. The claim gives the individual of a node with a family the offset
  \<open>(0, max(0, -familyOffset))\<close> in horizontal orientation. The code computes that
  amount (\<open>famYOffset\<close>) and adds it to the spouse, but writes \<open>yOffset: 0\<close> for the
  individual, where the vertical branch writes \<open>xOffset: famXOffset\<close>. For the couple
  of the example with raw family position \<open>-5\<close>, the amount is 5, the individual gets
  \<open>(0, 0)\<close> and the spouse \<open>(0, 57 + 5)\<close>.
\<close>

theorem horizontal_indi_offset_not_shifted:
  "famYOffset imports_ex (options_ex True False) node_couple = Num 5 \<and>
   map (\<lambda>d. (entry_id (o_indi d), xOffset d, yOffset d))
     (offsetIndis imports_ex (options_ex True False) node_couple)
     = [(''I1'', Num 0, Num 0), (''I2'', Num 0, Num 62)]"
  by (simp add: offsetIndis_def famYOffset_def famXOffset_def imports_ex_def options_ex_def
      node_couple_def entry_ex_def)

text \<open>
  C9. A node with a spouse and no individual yields one record, the spouse's, with
  offset \<open>(0, 0)\<close>, in both orientations and whatever the family position is.
\<close>

theorem spouse_without_indi_offset:
  assumes "indi node = None" and "spouse node = Some s"
  shows "offsetIndis imp opts node
           = [\<lparr>o_indi = s, o_generation = generation node, xOffset = Num 0, yOffset = Num 0\<rparr>]"
  using assms by (simp add: offsetIndis_def)

theorem spouse_without_indi_offset_witness:
  "indi node_spouse_only = None \<and> spouse node_spouse_only = Some (entry_ex ''I2'' 90 57) \<and>
   offsetIndis imports_ex (options_ex True False) node_spouse_only
     = [\<lparr>o_indi = entry_ex ''I2'' 90 57, o_generation = Num 1, xOffset = Num 0, yOffset = Num 0\<rparr>] \<and>
   offsetIndis imports_ex (options_ex False False) node_spouse_only
     = [\<lparr>o_indi = entry_ex ''I2'' 90 57, o_generation = Num 1, xOffset = Num 0, yOffset = Num 0\<rparr>]"
  using spouse_without_indi_offset [of node_spouse_only "entry_ex ''I2'' 90 57" imports_ex "options_ex True False"]
    spouse_without_indi_offset [of node_spouse_only "entry_ex ''I2'' 90 57" imports_ex "options_ex False False"]
  by (simp add: node_spouse_only_def)

section \<open>The lifespan line\<close>

text \<open>
  The lifespan text as the spec words it: the left part is the birth year when the
  birth date is exact, else the \<open>from\<close> year of its range, else \<open>?\<close>; the right part is
  the death year when the death date is exact, else the \<open>to\<close> year of its range, else
  empty; the two are joined by \<open>" - "\<close>.
\<close>

definition spec_left :: "IndiDetails \<Rightarrow> string" where
  "spec_left i =
     (case getBirthDate i of
        None \<Rightarrow> ''?''
      | Some b \<Rightarrow>
         (case date b of
            Some d \<Rightarrow> int_to_string (year d)
          | None \<Rightarrow>
             (case dateRange b of
                None \<Rightarrow> ''?''
              | Some r \<Rightarrow> (case range_from r of None \<Rightarrow> ''?'' | Some f \<Rightarrow> int_to_string (year f)))))"

definition spec_right :: "IndiDetails \<Rightarrow> string" where
  "spec_right i =
     (case getDeathDate i of
        None \<Rightarrow> []
      | Some b \<Rightarrow>
         (case date b of
            Some d \<Rightarrow> int_to_string (year d)
          | None \<Rightarrow>
             (case dateRange b of
                None \<Rightarrow> []
              | Some r \<Rightarrow> (case range_to r of None \<Rightarrow> [] | Some t \<Rightarrow> int_to_string (year t)))))"

definition spec_lifespan :: "IndiDetails \<Rightarrow> string" where
  "spec_lifespan i = spec_left i @ '' - '' @ spec_right i"

text \<open>
  The ranges the lifespan reads have the endpoint it reads: a birth date that is a
  range only has a \<open>from\<close> date, a death date that is a range only has a \<open>to\<close> date.
\<close>

definition rangeEndpointsPresent :: "IndiDetails \<Rightarrow> bool" where
  "rangeEndpointsPresent i =
     ((case getBirthDate i of
         None \<Rightarrow> True
       | Some b \<Rightarrow>
          (case date b of
             Some d \<Rightarrow> True
           | None \<Rightarrow> (case dateRange b of None \<Rightarrow> True | Some r \<Rightarrow> range_from r \<noteq> None)))
      \<and>
      (case getDeathDate i of
         None \<Rightarrow> True
       | Some b \<Rightarrow>
          (case date b of
             Some d \<Rightarrow> True
           | None \<Rightarrow> (case dateRange b of None \<Rightarrow> True | Some r \<Rightarrow> range_to r \<noteq> None))))"

lemma lifespan_spec:
  assumes "rangeEndpointsPresent i"
  shows "lifespan i = Inr (spec_lifespan i)"
  using assms
  by (auto simp: lifespan_def spec_lifespan_def spec_left_def spec_right_def
      rangeEndpointsPresent_def isValidDate_def birthYear_def deathYear_def
      split: option.splits)

lemma getIndiDetails_spec:
  assumes "rangeEndpointsPresent i"
  shows "getIndiDetails i =
           Inr ((if isValidDate (getBirthDate i) \<or> isValidDate (getDeathDate i)
                 then [\<lparr>symbol = [], centered = True, line_text = spec_lifespan i\<rparr>]
                 else [])
                @ placeLines i)"
  using lifespan_spec [OF assms] by (simp add: getIndiDetails_def)

lemma height_one_line:
  assumes "getIndi (data opts) k = Some i" and "getIndiDetails i = Inr [l]"
    and "getImageUrl i = None"
  shows "\<exists>w. getPreferredIndiSize imp opts k = Inr (w, Num (INDI_MIN_HEIGHT + 14))"
  using assms
  by (simp add: getPreferredIndiSize_def Let_def truthy_string_def INDI_MIN_HEIGHT_def)

text \<open>
  C4, as the code has it. For an individual whose ranges have the endpoints the
  lifespan reads, the details are the lifespan line, present iff the birth date or the
  death date is valid, followed by the place lines; its text is the spec's
  \<open><left> - <right>\<close>. An individual with an exact birth year \<open>y\<close> and nothing else has
  the single line \<open>"y - "\<close> (the separator ends in a space, the right part being empty)
  and box height \<open>INDI_MIN_HEIGHT + 14\<close>; one with an exact death year only has the
  line \<open>"? - y"\<close>.
\<close>

theorem getIndiDetails_lifespan:
  "(rangeEndpointsPresent i \<longrightarrow>
      getIndiDetails i =
        Inr ((if isValidDate (getBirthDate i) \<or> isValidDate (getDeathDate i)
              then [\<lparr>symbol = [], centered = True, line_text = spec_lifespan i\<rparr>]
              else [])
             @ placeLines i)) \<and>
   (getBirthDate i = Some \<lparr>date = Some \<lparr>year = y\<rparr>, dateRange = None\<rparr> \<and>
    getDeathDate i = None \<and> getBirthPlace i = None \<and> getDeathPlace i = None \<and>
    getImageUrl i = None \<longrightarrow>
      getIndiDetails i =
        Inr [\<lparr>symbol = [], centered = True, line_text = int_to_string y @ '' - ''\<rparr>] \<and>
      (getIndi (data opts) k = Some i \<longrightarrow>
         (\<exists>w. getPreferredIndiSize imp opts k = Inr (w, Num (43 + 14))))) \<and>
   (getBirthDate i = None \<and>
    getDeathDate i = Some \<lparr>date = Some \<lparr>year = y\<rparr>, dateRange = None\<rparr> \<and>
    getBirthPlace i = None \<and> getDeathPlace i = None \<longrightarrow>
      getIndiDetails i =
        Inr [\<lparr>symbol = [], centered = True, line_text = ''? - '' @ int_to_string y\<rparr>])"
proof (intro conjI impI)
  assume "rangeEndpointsPresent i"
  then show "getIndiDetails i =
        Inr ((if isValidDate (getBirthDate i) \<or> isValidDate (getDeathDate i)
              then [\<lparr>symbol = [], centered = True, line_text = spec_lifespan i\<rparr>]
              else [])
             @ placeLines i)"
    by (rule getIndiDetails_spec)
next
  assume b: "getBirthDate i = Some \<lparr>date = Some \<lparr>year = y\<rparr>, dateRange = None\<rparr> \<and>
    getDeathDate i = None \<and> getBirthPlace i = None \<and> getDeathPlace i = None \<and>
    getImageUrl i = None"
  then have r: "rangeEndpointsPresent i"
    by (simp add: rangeEndpointsPresent_def)
  from b show d: "getIndiDetails i =
        Inr [\<lparr>symbol = [], centered = True, line_text = int_to_string y @ '' - ''\<rparr>]"
    by (simp add: getIndiDetails_spec [OF r] isValidDate_def placeLines_def truthy_string_def
        spec_lifespan_def spec_left_def spec_right_def)
  assume "getIndi (data opts) k = Some i"
  with b d show "\<exists>w. getPreferredIndiSize imp opts k = Inr (w, Num (43 + 14))"
    using height_one_line [of opts k i _ imp] by (simp add: INDI_MIN_HEIGHT_def)
next
  assume b: "getBirthDate i = None \<and>
    getDeathDate i = Some \<lparr>date = Some \<lparr>year = y\<rparr>, dateRange = None\<rparr> \<and>
    getBirthPlace i = None \<and> getDeathPlace i = None"
  then have r: "rangeEndpointsPresent i"
    by (simp add: rangeEndpointsPresent_def)
  from b show "getIndiDetails i =
        Inr [\<lparr>symbol = [], centered = True, line_text = ''? - '' @ int_to_string y\<rparr>]"
    by (simp add: getIndiDetails_spec [OF r] isValidDate_def placeLines_def truthy_string_def
        spec_lifespan_def spec_left_def spec_right_def)
qed

theorem getIndiDetails_lifespan_witness:
  "rangeEndpointsPresent indi_born_1900 \<and>
   getIndiDetails indi_born_1900 = Inr [\<lparr>symbol = [], centered = True, line_text = ''1900 - ''\<rparr>] \<and>
   getIndi (data (options_ex False False)) ''I1'' = Some indi_born_1900 \<and>
   getPreferredIndiSize imports_ex (options_ex False False) ''I1'' = Inr (Num 64, Num 57) \<and>
   getIndiDetails indi_died_1950 = Inr [\<lparr>symbol = [], centered = True, line_text = ''? - 1950''\<rparr>]"
proof -
  have r: "rangeEndpointsPresent indi_born_1900"
    by (simp add: rangeEndpointsPresent_def indi_born_1900_def)
  have g: "getIndi (data (options_ex False False)) ''I1'' = Some indi_born_1900"
    by (simp add: options_ex_def data_ex_def)
  have b: "getBirthDate indi_born_1900 = Some \<lparr>date = Some \<lparr>year = 1900\<rparr>, dateRange = None\<rparr> \<and>
    getDeathDate indi_born_1900 = None \<and> getBirthPlace indi_born_1900 = None \<and>
    getDeathPlace indi_born_1900 = None \<and> getImageUrl indi_born_1900 = None"
    by (simp add: indi_born_1900_def)
  have d: "getBirthDate indi_died_1950 = None \<and>
    getDeathDate indi_died_1950 = Some \<lparr>date = Some \<lparr>year = 1950\<rparr>, dateRange = None\<rparr> \<and>
    getBirthPlace indi_died_1950 = None \<and> getDeathPlace indi_died_1950 = None"
    by (simp add: indi_died_1950_def)
  have l: "getIndiDetails indi_born_1900 = Inr [\<lparr>symbol = [], centered = True, line_text = ''1900 - ''\<rparr>]"
    using getIndiDetails_lifespan [of indi_born_1900 1900 "options_ex False False" "''I1''" imports_ex] b
    by (simp add: int_to_string_1900)
  have w: "getPreferredIndiSize imports_ex (options_ex False False) ''I1'' = Inr (Num 64, Num 57)"
    using g l
    by (simp add: getPreferredIndiSize_def Let_def maxDetailsWidth_def imports_ex_def
        indi_born_1900_def truthy_string_def string_or_empty_def INDI_MIN_HEIGHT_def
        INDI_MIN_WIDTH_def)
  have x: "getIndiDetails indi_died_1950 = Inr [\<lparr>symbol = [], centered = True, line_text = ''? - 1950''\<rparr>]"
    using getIndiDetails_lifespan [of indi_died_1950 1950 "options_ex False False" "''I2''" imports_ex] d
    by (simp add: int_to_string_1950)
  from r g l w x show ?thesis by simp
qed

text \<open>
  The claim's text \<open>"1900 -"\<close> is not what the code builds: the separator \<open>" - "\<close> is
  appended whole, so the line ends in a space. And a valid birth date need not yield a
  line: for a range without a \<open>from\<close> date, \<open>birthDate.dateRange!.from!.year\<close> throws.
\<close>

theorem lifespan_birth_only_counterexample:
  "getIndiDetails indi_born_1900 = Inr [\<lparr>symbol = [], centered = True, line_text = ''1900 - ''\<rparr>] \<and>
   getIndiDetails indi_born_1900 \<noteq> Inr [\<lparr>symbol = [], centered = True, line_text = ''1900 -''\<rparr>] \<and>
   isValidDate (getBirthDate indi_born_before_1900) \<and>
   getIndiDetails indi_born_before_1900 = Inl TypeError"
  by (simp add: getIndiDetails_def lifespan_def birthYear_def isValidDate_def placeLines_def
      truthy_string_def indi_born_1900_def indi_born_before_1900_def int_to_string_1900)

section \<open>Family details\<close>

lemma getFamDetails_cases:
  "getFamDetails imp opts fam =
     Inr ((if truthy_string (marriageDate imp opts fam)
           then [\<lparr>symbol = UNION_SYMBOL, centered = False,
                  line_text = string_or_empty (marriageDate imp opts fam)\<rparr>]
           else [])
          @
          (if truthy_string (getMarriagePlace fam)
           then [\<lparr>symbol = (if truthy_string (marriageDate imp opts fam) then [] else UNION_SYMBOL),
                  centered = False, line_text = string_or_empty (getMarriagePlace fam)\<rparr>]
           else []))"
  by (simp add: getFamDetails_def Let_def)

lemma UNION_SYMBOL_not_empty: "UNION_SYMBOL \<noteq> []"
  by (simp add: UNION_SYMBOL_def)

lemma getPreferredFamSize_no_details:
  assumes "getFam (data opts) k = Some fam" and "getFamDetails imp opts fam = Inr []"
  shows "getPreferredFamSize imp opts k = Inr (Num FAM_MIN_WIDTH, Num FAM_MIN_HEIGHT)"
  using assms
  by (simp add: getPreferredFamSize_def Let_def maxDetailsWidth_def FAM_MIN_HEIGHT_def)

text \<open>
  C5, as the code has it. The date line exists when the marriage date has an exact
  date whose formatted text is not empty (\<open>marriageDate\<close> is truthy), the place line
  when the marriage place is a non-empty string. If one of them exists, the details
  are the date line (if any) followed by the place line (if any), the first line
  carries the union marker and no other line does. If neither exists, the details are
  empty and the preferred size is \<open>FAM_MIN_WIDTH x FAM_MIN_HEIGHT = 15 x 10\<close>.
\<close>

theorem getFamDetails_union_marker:
  "(truthy_string (marriageDate imp opts fam) \<or> truthy_string (getMarriagePlace fam) \<longrightarrow>
      (\<exists>ls. getFamDetails imp opts fam = Inr ls \<and>
         map line_text ls =
           (if truthy_string (marriageDate imp opts fam)
            then [string_or_empty (marriageDate imp opts fam)] else [])
           @ (if truthy_string (getMarriagePlace fam)
              then [string_or_empty (getMarriagePlace fam)] else []) \<and>
         symbol (hd ls) = UNION_SYMBOL \<and>
         length (filter (\<lambda>l. symbol l = UNION_SYMBOL) ls) = 1 \<and>
         (\<forall>l \<in> set (tl ls). symbol l = []))) \<and>
   (\<not> truthy_string (marriageDate imp opts fam) \<and> \<not> truthy_string (getMarriagePlace fam) \<longrightarrow>
      getFamDetails imp opts fam = Inr [] \<and>
      (getFam (data opts) k = Some fam \<longrightarrow>
         getPreferredFamSize imp opts k = Inr (Num 15, Num 10)))"
proof (intro conjI impI)
  assume "truthy_string (marriageDate imp opts fam) \<or> truthy_string (getMarriagePlace fam)"
  then show "\<exists>ls. getFamDetails imp opts fam = Inr ls \<and>
         map line_text ls =
           (if truthy_string (marriageDate imp opts fam)
            then [string_or_empty (marriageDate imp opts fam)] else [])
           @ (if truthy_string (getMarriagePlace fam)
              then [string_or_empty (getMarriagePlace fam)] else []) \<and>
         symbol (hd ls) = UNION_SYMBOL \<and>
         length (filter (\<lambda>l. symbol l = UNION_SYMBOL) ls) = 1 \<and>
         (\<forall>l \<in> set (tl ls). symbol l = [])"
    using UNION_SYMBOL_not_empty by (auto simp: getFamDetails_cases)
next
  assume n: "\<not> truthy_string (marriageDate imp opts fam) \<and> \<not> truthy_string (getMarriagePlace fam)"
  then show e: "getFamDetails imp opts fam = Inr []"
    by (simp add: getFamDetails_cases)
  assume "getFam (data opts) k = Some fam"
  then show "getPreferredFamSize imp opts k = Inr (Num 15, Num 10)"
    using getPreferredFamSize_no_details [of opts k fam imp] e
    by (simp add: FAM_MIN_WIDTH_def FAM_MIN_HEIGHT_def)
qed

theorem getFamDetails_union_marker_witness:
  "truthy_string (marriageDate imports_ex (options_ex False False) fam_married_1925) \<and>
   getFamDetails imports_ex (options_ex False False) fam_married_1925
     = Inr [\<lparr>symbol = UNION_SYMBOL, centered = False, line_text = ''1925''\<rparr>,
            \<lparr>symbol = [], centered = False, line_text = ''Paris''\<rparr>] \<and>
   \<not> truthy_string (marriageDate imports_ex (options_ex False False) fam_plain) \<and>
   \<not> truthy_string (getMarriagePlace fam_plain) \<and>
   getFam (data (options_ex False False)) ''F2'' = Some fam_plain \<and>
   getFamDetails imports_ex (options_ex False False) fam_plain = Inr [] \<and>
   getPreferredFamSize imports_ex (options_ex False False) ''F2'' = Inr (Num 15, Num 10)"
proof -
  have t: "truthy_string (marriageDate imports_ex (options_ex False False) fam_married_1925)"
    by (simp add: marriageDate_def fam_married_1925_def imports_ex_def truthy_string_def
        int_to_string_1925)
  have p: "\<not> truthy_string (marriageDate imports_ex (options_ex False False) fam_plain) \<and>
     \<not> truthy_string (getMarriagePlace fam_plain)"
    by (simp add: marriageDate_def fam_plain_def truthy_string_def)
  have g: "getFam (data (options_ex False False)) ''F2'' = Some fam_plain"
    by (simp add: options_ex_def data_ex_def)
  have d: "getFamDetails imports_ex (options_ex False False) fam_married_1925
     = Inr [\<lparr>symbol = UNION_SYMBOL, centered = False, line_text = ''1925''\<rparr>,
            \<lparr>symbol = [], centered = False, line_text = ''Paris''\<rparr>]"
    by (simp add: getFamDetails_cases marriageDate_def fam_married_1925_def imports_ex_def
        truthy_string_def string_or_empty_def int_to_string_1925)
  from t p g d
    getFamDetails_union_marker [of imports_ex "options_ex False False" fam_married_1925 "''F1''"]
    getFamDetails_union_marker [of imports_ex "options_ex False False" fam_plain "''F2''"]
  show ?thesis by simp
qed

text \<open>
  A marriage date that is set but holds a range only gives no date line: with no
  place either, the details are empty although a marriage date is set. A marriage
  place that is the empty string gives no place line.
\<close>

theorem marriage_range_only_counterexample:
  "getMarriageDate fam_range_only \<noteq> None \<and>
   getFamDetails imports_ex (options_ex False False) fam_range_only = Inr [] \<and>
   getMarriagePlace fam_empty_place \<noteq> None \<and>
   getFamDetails imports_ex (options_ex False False) fam_empty_place = Inr []"
  by (simp add: getFamDetails_cases marriageDate_def fam_range_only_def fam_empty_place_def
      truthy_string_def)

section \<open>The background style\<close>

lemma backgroundStyle_known_sex:
  assumes "getIndi (data opts) (entry_id (o_indi d)) = Some i" and "getSex i = Some s"
    and "SEX_COLORS s = Some c"
  shows "backgroundStyle opts d = Inr (''fill: '' @ c)"
  using assms by (simp add: backgroundStyle_def string_or_def string_or_empty_def sexColor_def)

lemma SEX_COLORS_values:
  "SEX_COLORS ''F'' = Some ''#fcb7bd''" "SEX_COLORS ''M'' = Some ''#b1e2e2''"
  "SEX_COLORS [] = None"
  by (simp_all add: SEX_COLORS_def)

text \<open>
  The style is never the empty string: the left operand of \<open>||\<close> starts with
  \<open>fill: \<close> and is truthy, so the fallback \<open>''\<close> is dead.
\<close>

lemma backgroundStyle_unknown_sex:
  assumes "getIndi (data opts) (entry_id (o_indi d)) = Some i"
    and "SEX_COLORS (string_or_empty (getSex i)) = None"
  shows "backgroundStyle opts d = Inr ''fill: undefined''"
  using assms by (simp add: backgroundStyle_def string_or_def sexColor_def)

text \<open>
  C3. For a person of sex \<open>F\<close> the style is \<open>fill: #fcb7bd\<close>, as the claim says. For
  a person with no sex the claim expects the empty style string; the code yields
  \<open>fill: undefined\<close>.
\<close>

theorem backgroundStyle_no_sex:
  "getSex indi_died_1950 = None \<and>
   backgroundStyle (options_ex False False)
     \<lparr>o_indi = entry_ex ''I2'' 90 57, o_generation = Num 0, xOffset = Num 0, yOffset = Num 0\<rparr>
     = Inr ''fill: undefined'' \<and>
   backgroundStyle (options_ex False False)
     \<lparr>o_indi = entry_ex ''I1'' 100 57, o_generation = Num 0, xOffset = Num 0, yOffset = Num 0\<rparr>
     = Inr ''fill: #fcb7bd''"
  by (simp add: backgroundStyle_def options_ex_def data_ex_def entry_ex_def indi_died_1950_def
      indi_born_1900_def string_or_def string_or_empty_def sexColor_def SEX_COLORS_def)

section \<open>Orientation\<close>

lemma offsetIndis_horizontal_x:
  assumes "horizontal opts" and "d \<in> set (offsetIndis imp opts node)"
  shows "xOffset d = Num 0"
  using assms by (auto simp: offsetIndis_def famXOffset_def split: option.splits)

lemma offsetIndis_vertical_y:
  assumes "\<not> horizontal opts" and "d \<in> set (offsetIndis imp opts node)"
  shows "yOffset d = Num 0"
  using assms by (auto simp: offsetIndis_def split: option.splits)

lemma marriageDate_horizontal:
  "marriageDate imp (opts\<lparr>horizontal := h\<rparr>) fam = marriageDate imp opts fam"
  by (simp add: marriageDate_def split: option.splits)

lemma getFamDetails_horizontal:
  "getFamDetails imp (opts\<lparr>horizontal := h\<rparr>) fam = getFamDetails imp opts fam"
  unfolding getFamDetails_def marriageDate_horizontal by (rule refl)

text \<open>
  C7. The preferred sizes of an individual and of a family do not read the
  \<open>horizontal\<close> option: they are the same for every value of it. The orientation
  decides the axis only: in horizontal orientation every per-entry offset has
  \<open>x = 0\<close> and the family transform carries the clamped family position in \<open>y\<close>; in
  vertical orientation every per-entry offset has \<open>y = 0\<close> and the family transform
  carries the clamped family position in \<open>x\<close>.
\<close>

theorem sizes_independent_of_orientation:
  "getPreferredIndiSize imp (opts\<lparr>horizontal := h\<rparr>) k = getPreferredIndiSize imp opts k \<and>
   getPreferredFamSize imp (opts\<lparr>horizontal := h\<rparr>) k = getPreferredFamSize imp opts k \<and>
   (\<forall>d \<in> set (offsetIndis imp (opts\<lparr>horizontal := True\<rparr>) node). xOffset d = Num 0) \<and>
   (\<forall>d \<in> set (offsetIndis imp (opts\<lparr>horizontal := False\<rparr>) node). yOffset d = Num 0) \<and>
   (\<forall>t. getFamTransform imp (opts\<lparr>horizontal := True\<rparr>) node = Inr t \<longrightarrow>
      (\<exists>x. t = translate x (d3_max [getFamPositionHorizontal imp node, Num 0]))) \<and>
   (\<forall>t. getFamTransform imp (opts\<lparr>horizontal := False\<rparr>) node = Inr t \<longrightarrow>
      (\<exists>y. t = translate (d3_max [getFamPositionVertical imp node, Num 0]) y))"
proof (intro conjI)
  show "getPreferredIndiSize imp (opts\<lparr>horizontal := h\<rparr>) k = getPreferredIndiSize imp opts k"
    by (simp add: getPreferredIndiSize_def)
  show "getPreferredFamSize imp (opts\<lparr>horizontal := h\<rparr>) k = getPreferredFamSize imp opts k"
    by (simp add: getPreferredFamSize_def getFamDetails_horizontal split: option.splits)
  show "\<forall>d \<in> set (offsetIndis imp (opts\<lparr>horizontal := True\<rparr>) node). xOffset d = Num 0"
    using offsetIndis_horizontal_x [of "opts\<lparr>horizontal := True\<rparr>" _ imp node] by simp
  show "\<forall>d \<in> set (offsetIndis imp (opts\<lparr>horizontal := False\<rparr>) node). yOffset d = Num 0"
    using offsetIndis_vertical_y [of "opts\<lparr>horizontal := False\<rparr>" _ imp node] by simp
  show "\<forall>t. getFamTransform imp (opts\<lparr>horizontal := True\<rparr>) node = Inr t \<longrightarrow>
      (\<exists>x. t = translate x (d3_max [getFamPositionHorizontal imp node, Num 0]))"
    by (auto simp: getFamTransform_def split: sum.splits)
  show "\<forall>t. getFamTransform imp (opts\<lparr>horizontal := False\<rparr>) node = Inr t \<longrightarrow>
      (\<exists>y. t = translate (d3_max [getFamPositionVertical imp node, Num 0]) y)"
    by (auto simp: getFamTransform_def split: sum.splits)
qed

lemma options_ex_horizontal: "(options_ex v a)\<lparr>horizontal := h\<rparr> = options_ex h a"
  by (simp add: options_ex_def)

lemma int_to_string_small:
  "int_to_string 0 = ''0''" "int_to_string 57 = ''57''" "int_to_string 100 = ''100''"
  "int_to_string 90 = ''90''"
  by (simp_all add: int_to_string_def nat_to_string.simps digit_char_def)

theorem sizes_independent_of_orientation_witness:
  "getPreferredIndiSize imports_ex (options_ex True False) ''I1'' = Inr (Num 64, Num 57) \<and>
   getPreferredIndiSize imports_ex (options_ex False False) ''I1'' = Inr (Num 64, Num 57) \<and>
   getPreferredFamSize imports_ex (options_ex True False) ''F1'' = Inr (Num 52, Num 38) \<and>
   getPreferredFamSize imports_ex (options_ex False False) ''F1'' = Inr (Num 52, Num 38) \<and>
   map (\<lambda>d. (xOffset d, yOffset d)) (offsetIndis imports_ex (options_ex True False) node_couple)
     = [(Num 0, Num 0), (Num 0, Num 62)] \<and>
   map (\<lambda>d. (xOffset d, yOffset d)) (offsetIndis imports_ex (options_ex False False) node_couple)
     = [(Num 5, Num 0), (Num 105, Num 0)] \<and>
   getFamTransform imports_ex (options_ex True False) node_couple = Inr ''translate(100, 0)'' \<and>
   getFamTransform imports_ex (options_ex False False) node_couple = Inr ''translate(0, 57)''"
proof -
  have i: "getPreferredIndiSize imports_ex (options_ex False False) ''I1'' = Inr (Num 64, Num 57)"
    by (simp add: getPreferredIndiSize_def getIndiDetails_def lifespan_def birthYear_def
        isValidDate_def placeLines_def Let_def maxDetailsWidth_def imports_ex_def options_ex_def
        data_ex_def indi_born_1900_def truthy_string_def string_or_empty_def
        INDI_MIN_HEIGHT_def INDI_MIN_WIDTH_def int_to_string_1900)
  have f: "getPreferredFamSize imports_ex (options_ex False False) ''F1'' = Inr (Num 52, Num 38)"
    by (simp add: getPreferredFamSize_def getFamDetails_cases marriageDate_def Let_def
        maxDetailsWidth_def imports_ex_def options_ex_def data_ex_def fam_married_1925_def
        truthy_string_def string_or_empty_def FAM_MIN_HEIGHT_def FAM_MIN_WIDTH_def
        int_to_string_1925)
  have oh: "map (\<lambda>d. (xOffset d, yOffset d)) (offsetIndis imports_ex (options_ex True False) node_couple)
     = [(Num 0, Num 0), (Num 0, Num 62)]"
    by (simp add: offsetIndis_def famYOffset_def famXOffset_def imports_ex_def options_ex_def
        node_couple_def entry_ex_def)
  have ov: "map (\<lambda>d. (xOffset d, yOffset d)) (offsetIndis imports_ex (options_ex False False) node_couple)
     = [(Num 5, Num 0), (Num 105, Num 0)]"
    by (simp add: offsetIndis_def famYOffset_def famXOffset_def imports_ex_def options_ex_def
        node_couple_def entry_ex_def)
  have th: "getFamTransform imports_ex (options_ex True False) node_couple = Inr ''translate(100, 0)''"
    by (simp add: getFamTransform_def indiOrSpouse_def truthy_number_def translate_def
        number_to_string_def imports_ex_def options_ex_def node_couple_def entry_ex_def
        int_to_string_small)
  have tv: "getFamTransform imports_ex (options_ex False False) node_couple = Inr ''translate(0, 57)''"
    by (simp add: getFamTransform_def indiOrSpouse_def truthy_number_def translate_def
        number_to_string_def imports_ex_def options_ex_def node_couple_def entry_ex_def
        int_to_string_small)
  from i f oh ov th tv
    sizes_independent_of_orientation [where imp = imports_ex and opts = "options_ex False False"
      and h = True and k = "''I1''" and node = node_couple]
    sizes_independent_of_orientation [where imp = imports_ex and opts = "options_ex False False"
      and h = True and k = "''F1''" and node = node_couple]
  show ?thesis by (simp add: options_ex_horizontal)
qed

section \<open>The anchor of the family box\<close>

lemma indiOrSpouse_spouse:
  assumes "indi node = None \<or> (\<exists>i. indi node = Some i \<and> (dim i = Num 0 \<or> dim i = Undefined))"
    and "spouse node = Some s"
  shows "indiOrSpouse dim node = Inr (dim s)"
  using assms by (auto simp: indiOrSpouse_def truthy_number_def)

lemma indiOrSpouse_throws:
  assumes "indi node = None \<or> (\<exists>i. indi node = Some i \<and> (dim i = Num 0 \<or> dim i = Undefined))"
    and "spouse node = None"
  shows "indiOrSpouse dim node = Inl TypeError"
  using assms by (auto simp: indiOrSpouse_def truthy_number_def)

lemma indiOrSpouse_defined:
  assumes "(\<exists>i n. indi node = Some i \<and> dim i = Num n \<and> 0 < n) \<or>
           (\<exists>s. spouse node = Some s \<and> dim s \<noteq> Undefined)"
  shows "\<exists>a. indiOrSpouse dim node = Inr a \<and> a \<noteq> Undefined"
  using assms by (auto simp: indiOrSpouse_def truthy_number_def Let_def split: number.splits option.splits)

text \<open>
  The dimension \<open>getFamTransform\<close> reads for the anchor: the width in horizontal
  orientation, the height in vertical orientation.
\<close>

definition relevant :: "RendererOptions \<Rightarrow> TreeEntry \<Rightarrow> number" where
  "relevant opts e = (if horizontal opts then width e else height e)"

text \<open>
  C10. When the individual is absent or its relevant dimension is 0 or unset, the
  anchor of the family box is the spouse's relevant dimension if the node has a
  spouse, and reading the spouse throws a \<open>TypeError\<close> if it has none. When the
  individual has a positive relevant dimension or the spouse has its relevant
  dimension set, \<open>getFamTransform\<close> returns a transform.
\<close>

theorem getFamTransform_spouse_anchor:
  "((indi node = None \<or> (\<exists>i. indi node = Some i \<and> (relevant opts i = Num 0 \<or> relevant opts i = Undefined))) \<longrightarrow>
      (\<forall>s. spouse node = Some s \<longrightarrow>
         getFamTransform imp opts node =
           Inr (if horizontal opts
                then translate (width s) (d3_max [getFamPositionHorizontal imp node, Num 0])
                else translate (d3_max [getFamPositionVertical imp node, Num 0]) (height s))) \<and>
      (spouse node = None \<longrightarrow> getFamTransform imp opts node = Inl TypeError)) \<and>
   ((\<exists>i n. indi node = Some i \<and> relevant opts i = Num n \<and> 0 < n) \<or>
    (\<exists>s. spouse node = Some s \<and> relevant opts s \<noteq> Undefined) \<longrightarrow>
      (\<exists>t. getFamTransform imp opts node = Inr t))"
proof (cases "horizontal opts")
  case True
  then have r: "relevant opts = width"
    by (simp add: relevant_def fun_eq_iff)
  from True show ?thesis
    unfolding r
    using indiOrSpouse_spouse [of node width] indiOrSpouse_throws [of node width]
      indiOrSpouse_defined [of node width]
    by (auto simp: getFamTransform_def)
next
  case False
  then have r: "relevant opts = height"
    by (simp add: relevant_def fun_eq_iff)
  from False show ?thesis
    unfolding r
    using indiOrSpouse_spouse [of node height] indiOrSpouse_throws [of node height]
      indiOrSpouse_defined [of node height]
    by (auto simp: getFamTransform_def)
qed

text \<open>A node whose individual has width 0, with and without a spouse.\<close>

definition node_zero_width :: "TreeEntry option \<Rightarrow> TreeNode" where
  "node_zero_width s =
     \<lparr>node_id = ''I1'', indi = Some (entry_ex ''I1'' 0 57), spouse = s,
      family = Some (entry_ex ''F1'' 60 38), generation = Num 0\<rparr>"

theorem getFamTransform_spouse_anchor_witness:
  "indi (node_zero_width None) = Some (entry_ex ''I1'' 0 57) \<and>
   relevant (options_ex True False) (entry_ex ''I1'' 0 57) = Num 0 \<and>
   getFamTransform imports_ex (options_ex True False) (node_zero_width (Some (entry_ex ''I2'' 90 57)))
     = Inr ''translate(90, 0)'' \<and>
   getFamTransform imports_ex (options_ex True False) (node_zero_width None) = Inl TypeError \<and>
   relevant (options_ex False False) (entry_ex ''I1'' 0 57) = Num 57 \<and>
   getFamTransform imports_ex (options_ex False False) (node_zero_width None)
     = Inr ''translate(0, 57)''"
proof -
  have a: "indi (node_zero_width s) = Some (entry_ex ''I1'' 0 57)" for s
    by (simp add: node_zero_width_def)
  have b: "relevant (options_ex True False) (entry_ex ''I1'' 0 57) = Num 0"
    by (simp add: relevant_def options_ex_def entry_ex_def)
  have c: "relevant (options_ex False False) (entry_ex ''I1'' 0 57) = Num 57"
    by (simp add: relevant_def options_ex_def entry_ex_def)
  have s: "spouse (node_zero_width s) = s" for s
    by (simp add: node_zero_width_def)
  have h: "horizontal (options_ex True False)" "\<not> horizontal (options_ex False False)"
    by (simp_all add: options_ex_def)
  have t1: "getFamTransform imports_ex (options_ex True False) (node_zero_width (Some (entry_ex ''I2'' 90 57)))
     = Inr ''translate(90, 0)''"
    using getFamTransform_spouse_anchor [where node = "node_zero_width (Some (entry_ex ''I2'' 90 57))"
        and opts = "options_ex True False" and imp = imports_ex] a b s h
    by (simp add: translate_def number_to_string_def imports_ex_def entry_ex_def int_to_string_small)
  have t2: "getFamTransform imports_ex (options_ex True False) (node_zero_width None) = Inl TypeError"
    using getFamTransform_spouse_anchor [where node = "node_zero_width None"
        and opts = "options_ex True False" and imp = imports_ex]
      a b s h
    by simp
  have "\<exists>t. getFamTransform imports_ex (options_ex False False) (node_zero_width None) = Inr t"
    using getFamTransform_spouse_anchor [where node = "node_zero_width None"
        and opts = "options_ex False False" and imp = imports_ex]
      a c s h
    by simp
  then have t3: "getFamTransform imports_ex (options_ex False False) (node_zero_width None)
     = Inr ''translate(0, 57)''"
    by (simp add: getFamTransform_def indiOrSpouse_def truthy_number_def translate_def
        number_to_string_def imports_ex_def options_ex_def node_zero_width_def entry_ex_def
        int_to_string_small)
  from a b c t1 t2 t3 show ?thesis by simp
qed


section \<open>What a pass may change\<close>

text \<open>
  \<open>same c e e'\<close> relates an element before and after a pass. Tag, parent, text content
  and listeners are the same. An attribute differs only if it is the width or height
  of a \<open>rect\<close> or the transform of a \<open>g\<close>; the attribute list of any other element is
  the same list. The datum differs only on a \<open>g\<close>, an \<open>a\<close> or a \<open>rect\<close>. The children
  differ only on a \<open>g\<close>, or when \<open>c\<close> holds (the element is one the caller passes as
  entering).
\<close>

definition same :: "bool \<Rightarrow> element \<Rightarrow> element \<Rightarrow> bool" where
  "same c e e' =
     (tag e' = tag e \<and> parent e' = parent e \<and> textContent e' = textContent e \<and>
      listeners e' = listeners e \<and>
      (\<forall>a. attribute e' a \<noteq> attribute e a \<longrightarrow>
           (tag e = ''rect'' \<and> (a = ''width'' \<or> a = ''height'')) \<or>
           (tag e = ''g'' \<and> a = ''transform'')) \<and>
      (tag e \<noteq> ''g'' \<and> tag e \<noteq> ''rect'' \<longrightarrow> attrs e' = attrs e) \<and>
      (bound e' \<noteq> bound e \<longrightarrow> tag e = ''g'' \<or> tag e = ''a'' \<or> tag e = ''rect'') \<and>
      (children e' \<noteq> children e \<longrightarrow> tag e = ''g'' \<or> c))"

text \<open>
  \<open>kept n E d d'\<close>: the first \<open>n\<close> elements of \<open>d\<close> are still there in \<open>d'\<close>, each the
  \<open>same\<close>; \<open>E\<close> are the elements whose children may change whatever their tag. The
  elements of \<open>d\<close> after the first \<open>n\<close> keep tag and parent. An element that \<open>d'\<close> has
  and \<open>d\<close> has not is a \<open>g\<close>, or the child of an element after the first \<open>n\<close>.
\<close>

definition kept :: "nat \<Rightarrow> nat set \<Rightarrow> document \<Rightarrow> document \<Rightarrow> bool" where
  "kept n E d d' =
     (n \<le> length (elements d) \<and> length (elements d) \<le> length (elements d') \<and>
      (\<forall>r<n. same (r \<in> E) (elements d ! r) (elements d' ! r)) \<and>
      (\<forall>c. n \<le> c \<and> c < length (elements d) \<longrightarrow>
           tag (elements d' ! c) = tag (elements d ! c) \<and>
           parent (elements d' ! c) = parent (elements d ! c)) \<and>
      (\<forall>c. length (elements d) \<le> c \<and> c < length (elements d') \<longrightarrow>
           tag (elements d' ! c) = ''g'' \<or>
           (\<exists>p. parent (elements d' ! c) = Some p \<and> n \<le> p)))"

text \<open>
  \<open>sched a d d'\<close>: the transitions pending in \<open>d\<close> are still pending in \<open>d'\<close>; the ones
  added, none unless \<open>a\<close> (animation is on), have the fixed delay and duration and
  are for a transform, a width or a height.
\<close>

definition sched :: "bool \<Rightarrow> document \<Rightarrow> document \<Rightarrow> bool" where
  "sched a d d' =
     (\<exists>new. pending d' = pending d @ new \<and> (\<not> a \<longrightarrow> new = []) \<and>
        (\<forall>s \<in> set new. s_delay s = ANIMATION_DELAY_MS \<and> s_duration s = ANIMATION_DURATION_MS \<and>
           (s_name s = ''transform'' \<or> s_name s = ''width'' \<or> s_name s = ''height'')))"

definition upd :: "nat \<Rightarrow> nat set \<Rightarrow> bool \<Rightarrow> document \<Rightarrow> document \<Rightarrow> bool" where
  "upd n E a d d' = (kept n E d d' \<and> sched a d d')"










lemma upd_tag: "upd n E a d d' \<Longrightarrow> r < n \<Longrightarrow> tag (elements d' ! r) = tag (elements d ! r)"
  by (simp add: upd_def kept_def same_def)

subsection \<open>Single changes\<close>















subsection \<open>Selections that touch only what they may\<close>

text \<open>
  \<open>only n P sel\<close>: every element of the selection, and the parent of every
  placeholder, is new (its index is at least \<open>n\<close>) or satisfies \<open>P\<close>.
\<close>

definition slot_only :: "nat \<Rightarrow> (nat \<Rightarrow> bool) \<Rightarrow> slot \<Rightarrow> bool" where
  "slot_only n P s =
     (case s of Empty \<Rightarrow> True | Elem r \<Rightarrow> n \<le> r \<or> P r | EnterNode p dt nx \<Rightarrow> n \<le> p \<or> P p)"

definition only :: "nat \<Rightarrow> (nat \<Rightarrow> bool) \<Rightarrow> selection \<Rightarrow> bool" where
  "only n P sel = (\<forall>g \<in> set sel. \<forall>s \<in> set g. slot_only n P s)"

definition new :: "nat \<Rightarrow> selection \<Rightarrow> bool" where
  "new n sel = only n (\<lambda>r. False) sel"

definition tagged :: "document \<Rightarrow> string \<Rightarrow> nat \<Rightarrow> bool" where
  "tagged d t r = (tag (elements d ! r) = t)"







subsection \<open>Rules for composed operations\<close>


definition yields :: "(document \<Rightarrow> bool) \<Rightarrow> ('a \<Rightarrow> bool) \<Rightarrow> (document \<Rightarrow> error + ('a \<times> document)) \<Rightarrow> bool" where
  "yields I Q c = (\<forall>d x d'. I d \<longrightarrow> c d = Inr (x, d') \<longrightarrow> I d' \<and> Q x)"









lemma yields_weaken: "yields I Q c \<Longrightarrow> (\<And>x. Q x \<Longrightarrow> R x) \<Longrightarrow> yields I R c"
  unfolding yields_def by blast







subsection \<open>The operations of a selection\<close>

lemma tagged_upd: "upd n E a d0 d \<Longrightarrow> r < n \<Longrightarrow> tagged d t r = tagged d0 t r"
  by (simp add: tagged_def upd_tag)






























subsection \<open>Transitions\<close>





subsection \<open>The data join\<close>














subsection \<open>The parts of renderIndi and renderFamily\<close>

















subsection \<open>A whole pass\<close>







section \<open>An example document\<close>

text \<open>
  The caller keeps one group per layout node and binds the node to it. The example is
  a node with an individual (\<open>I1\<close>, born 1900) and a family without details (\<open>F2\<close>),
  in vertical orientation. \<open>start_doc\<close> is the document before the first pass: the
  root and the group of the node, which is new. \<open>first_doc\<close> is the document after the
  first pass, \<open>second_doc\<close> after a second pass in which the node is not new and the
  sizes have changed from \<open>100 x 57\<close> to \<open>120 x 71\<close> (individual) and from \<open>15 x 10\<close> to
  \<open>80 x 52\<close> (family).
\<close>

definition node_fam :: "int \<Rightarrow> int \<Rightarrow> int \<Rightarrow> int \<Rightarrow> TreeNode" where
  "node_fam w h fw fh =
     \<lparr>node_id = ''I1'', indi = Some (entry_ex ''I1'' w h), spouse = None,
      family = Some (entry_ex ''F2'' fw fh), generation = Num 0\<rparr>"

definition node_datum :: "int \<Rightarrow> int \<Rightarrow> int \<Rightarrow> int \<Rightarrow> datum option" where
  "node_datum w h fw fh = Some (NodeDatum (node_fam w h fw fh))"

definition indi_datum :: "int \<Rightarrow> int \<Rightarrow> datum option" where
  "indi_datum w h =
     Some (IndiDatum \<lparr>o_indi = entry_ex ''I1'' w h, o_generation = Num 0,
                      xOffset = Num 5, yOffset = Num 0\<rparr>)"

definition el :: "string \<Rightarrow> nat option \<Rightarrow> nat list \<Rightarrow> (string \<times> string) list \<Rightarrow> string \<Rightarrow> datum option \<Rightarrow> element" where
  "el t p c a x b =
     \<lparr>tag = t, parent = p, children = c, attrs = a, textContent = x, bound = b, listeners = []\<rparr>"

definition start_doc :: document where
  "start_doc =
     \<lparr>elements =
        [el ''g'' None [1] [] [] None,
         el ''g'' (Some 0) [] [(''class'', ''node'')] [] (node_datum 100 57 15 10)],
      pending = []\<rparr>"

definition first_doc :: document where
  "first_doc =
     \<lparr>elements =
        [el ''g'' None [1] [] [] None,
         el ''g'' (Some 0) [2] [(''class'', ''node'')] [] (node_datum 100 57 15 10),
         el ''g'' (Some 1) [3, 11] [(''class'', ''detailed'')] [] (node_datum 100 57 15 10),
         el ''g'' (Some 2) [4, 5, 7, 8, 9, 10]
           [(''class'', ''indi''), (''transform'', ''translate(5, 0)'')] [] (indi_datum 100 57),
         el ''rect'' (Some 3) []
           [(''rx'', ''5''), (''stroke-width'', ''0''), (''class'', ''background''),
            (''style'', ''fill: #fcb7bd''), (''width'', ''100''), (''height'', ''57'')]
           [] (indi_datum 100 57),
         el ''clipPath'' (Some 3) [6] [(''id'', ''clip-I1'')] [] (indi_datum 100 57),
         el ''rect'' (Some 5) [] [(''rx'', ''5''), (''width'', ''100''), (''height'', ''57'')]
           [] (indi_datum 100 57),
         el ''text'' (Some 3) []
           [(''text-anchor'', ''middle''), (''class'', ''name''), (''transform'', ''translate(50, 17)'')]
           ''Ann'' (indi_datum 100 57),
         el ''text'' (Some 3) []
           [(''text-anchor'', ''middle''), (''class'', ''name''), (''transform'', ''translate(50, 33)'')]
           ''Lee'' (indi_datum 100 57),
         el ''text'' (Some 3) []
           [(''text-anchor'', ''middle''), (''class'', ''details''), (''transform'', ''translate(50, 49)'')]
           ''1900 - '' (indi_datum 100 57),
         el ''rect'' (Some 3) []
           [(''rx'', ''5''), (''fill-opacity'', ''0''), (''class'', ''border''),
            (''width'', ''100''), (''height'', ''57'')]
           [] (indi_datum 100 57),
         el ''g'' (Some 2) [12] [(''class'', ''family''), (''transform'', ''translate(0, 57)'')]
           [] (node_datum 100 57 15 10),
         el ''rect'' (Some 11) []
           [(''rx'', ''5''), (''ry'', ''5''), (''width'', ''15''), (''height'', ''10'')]
           [] (node_datum 100 57 15 10)],
      pending = []\<rparr>"

text \<open>The caller's join binds the node of the second pass to the node's group.\<close>

definition rebound_doc :: document where
  "rebound_doc = modify 1 (\<lambda>e. e\<lparr>bound := node_datum 120 71 80 52\<rparr>) first_doc"

definition second_doc :: document where
  "second_doc =
     \<lparr>elements =
        [el ''g'' None [1] [] [] None,
         el ''g'' (Some 0) [2] [(''class'', ''node'')] [] (node_datum 120 71 80 52),
         el ''g'' (Some 1) [3, 11] [(''class'', ''detailed'')] [] (node_datum 120 71 80 52),
         el ''g'' (Some 2) [4, 5, 7, 8, 9, 10]
           [(''class'', ''indi''), (''transform'', ''translate(5, 0)'')] [] (indi_datum 120 71),
         el ''rect'' (Some 3) []
           [(''rx'', ''5''), (''stroke-width'', ''0''), (''class'', ''background''),
            (''style'', ''fill: #fcb7bd''), (''width'', ''120''), (''height'', ''71'')]
           [] (indi_datum 120 71),
         el ''clipPath'' (Some 3) [6] [(''id'', ''clip-I1'')] [] (indi_datum 100 57),
         el ''rect'' (Some 5) [] [(''rx'', ''5''), (''width'', ''120''), (''height'', ''71'')]
           [] (indi_datum 120 71),
         el ''text'' (Some 3) []
           [(''text-anchor'', ''middle''), (''class'', ''name''), (''transform'', ''translate(50, 17)'')]
           ''Ann'' (indi_datum 100 57),
         el ''text'' (Some 3) []
           [(''text-anchor'', ''middle''), (''class'', ''name''), (''transform'', ''translate(50, 33)'')]
           ''Lee'' (indi_datum 100 57),
         el ''text'' (Some 3) []
           [(''text-anchor'', ''middle''), (''class'', ''details''), (''transform'', ''translate(50, 49)'')]
           ''1900 - '' (indi_datum 100 57),
         el ''rect'' (Some 3) []
           [(''rx'', ''5''), (''fill-opacity'', ''0''), (''class'', ''border''),
            (''width'', ''120''), (''height'', ''71'')]
           [] (indi_datum 120 71),
         el ''g'' (Some 2) [12] [(''class'', ''family''), (''transform'', ''translate(0, 71)'')]
           [] (node_datum 120 71 80 52),
         el ''rect'' (Some 11) []
           [(''rx'', ''5''), (''ry'', ''5''), (''width'', ''15''), (''height'', ''10'')]
           [] (node_datum 100 57 15 10)],
      pending = []\<rparr>"


text \<open>What a pass returned, without the value functions of the pending transitions.\<close>

definition outcome :: "error + document \<Rightarrow> (element list \<times> (nat \<times> string \<times> nat \<times> nat) list) option" where
  "outcome r =
     (case r of
        Inl e \<Rightarrow> None
      | Inr d \<Rightarrow> Some (elements d, map (\<lambda>s. (s_target s, s_name s, s_delay s, s_duration s)) (pending d)))"

lemma outcome_Inr:
  assumes "outcome r = Some (elements d, [])" and "pending d = []"
  shows "r = Inr d"
proof (cases r)
  case (Inl e)
  with assms show ?thesis by (simp add: outcome_def)
next
  case (Inr x)
  with assms have "elements x = elements d" and "pending x = pending d"
    by (simp_all add: outcome_def)
  then have "x = d"
    by simp
  with Inr show ?thesis by simp
qed

lemma outcome_Some:
  assumes "outcome r = Some (els, ps)"
  shows "\<exists>d. r = Inr d \<and> elements d = els \<and>
           map (\<lambda>s. (s_target s, s_name s, s_delay s, s_duration s)) (pending d) = ps"
  using assms by (cases r) (simp_all add: outcome_def)

lemma first_outcome:
  "outcome (render imports_ex (options_ex False False) [[Elem 1]] [[Empty]] start_doc)
     = Some (elements first_doc, [])"
  by code_simp

lemma first_pass:
  "render imports_ex (options_ex False False) [[Elem 1]] [[Empty]] start_doc = Inr first_doc"
  by (rule outcome_Inr [OF first_outcome]) (simp add: first_doc_def)

lemma second_outcome:
  "outcome (render imports_ex (options_ex False False) [[Empty]] [[Elem 1]] rebound_doc)
     = Some (elements second_doc, [])"
  by code_simp

lemma second_pass:
  "render imports_ex (options_ex False False) [[Empty]] [[Elem 1]] rebound_doc = Inr second_doc"
  by (rule outcome_Inr [OF second_outcome]) (simp add: second_doc_def)



section \<open>The update path\<close>





section \<open>The family box on update\<close>

lemma renderFamily_ignores_update:
  "renderFamily imp opts enter update = renderFamily imp opts enter update'"
  by (simp add: renderFamily_def fun_eq_iff)

text \<open>
  C2. The first pass draws the family box \<open>15 x 10\<close>. In the second pass the node
  is not new and its family has the size \<open>80 x 52\<close>. \<open>render\<close> moves the family group
  (its transform follows the individual's new height, 71) and resizes the person's
  rectangles, but the family rectangle keeps width 15 and height 10: \<open>renderFamily\<close>
  sets them on the entering selection only.
\<close>

theorem family_box_not_resized:
  "render imports_ex (options_ex False False) [[Elem 1]] [[Empty]] start_doc = Inr first_doc \<and>
   bound (elements rebound_doc ! 1) = Some (NodeDatum (node_fam 120 71 80 52)) \<and>
   family (node_fam 120 71 80 52) = Some (entry_ex ''F2'' 80 52) \<and>
   render imports_ex (options_ex False False) [[Empty]] [[Elem 1]] rebound_doc = Inr second_doc \<and>
   elements second_doc ! 11 =
     el ''g'' (Some 2) [12] [(''class'', ''family''), (''transform'', ''translate(0, 71)'')] []
       (node_datum 120 71 80 52) \<and>
   elements second_doc ! 12 =
     el ''rect'' (Some 11) [] [(''rx'', ''5''), (''ry'', ''5''), (''width'', ''15''), (''height'', ''10'')] []
       (node_datum 100 57 15 10)"
  using first_pass second_pass
  by (simp add: rebound_doc_def first_doc_def second_doc_def modify_def node_datum_def node_fam_def)

section \<open>Immediate and animated positioning\<close>







end
